theory Spec2Isabelle
  imports Main
begin

section \<open>Requests, exceptions and permission classes\<close>

text \<open>
  The views of \<^verbatim>\<open>airport/views.py\<close> and \<^verbatim>\<open>chat_msg/views.py\<close> are Django REST
  framework viewsets. A request carries the acting principal (\<^verbatim>\<open>request.user\<close>): an
  authenticated user with its \<^verbatim>\<open>is_staff\<close> flag, or the anonymous user (\<open>None\<close>).
  A handler either returns a response (a status and a body) or raises; a raise is a value
  \<open>Inl e\<close>. Every handler takes the store and returns it, updated or not.
\<close>

record user =
  user_id :: nat
  is_staff :: bool

type_synonym principal = "user option"

datatype exn =
    ValueError
  | Http404
  | NotAuthenticated
  | PermissionDenied
  | ValidationError string

datatype http_method = GET | HEAD | OPTIONS | POST | PUT | PATCH | DELETE

datatype action = A_list | A_retrieve | A_create | A_update | A_partial_update | A_destroy

text \<open>
  The framework's exception handler turns the API exceptions and \<^verbatim>\<open>Http404\<close> into a
  response with their status; it returns nothing for any other exception, which is then
  re-raised and ends as an unhandled server error (status 500). \<open>NotAuthenticated\<close> is
  sent as 401 (as 403 when the authentication scheme sets no challenge header).
\<close>

fun exception_handler :: "exn \<Rightarrow> nat option" where
  "exception_handler (ValidationError field) = Some 400"
| "exception_handler NotAuthenticated = Some 401"
| "exception_handler PermissionDenied = Some 403"
| "exception_handler Http404 = Some 404"
| "exception_handler ValueError = None"

definition SAFE_METHODS :: "http_method list" where
  "SAFE_METHODS = [GET, HEAD, OPTIONS]"

text \<open>The router's mapping of the standard actions of a \<^verbatim>\<open>ModelViewSet\<close> to methods.\<close>

fun method_of :: "action \<Rightarrow> http_method" where
  "method_of A_list = GET"
| "method_of A_retrieve = GET"
| "method_of A_create = POST"
| "method_of A_update = PUT"
| "method_of A_partial_update = PATCH"
| "method_of A_destroy = DELETE"

text \<open>
  \<^verbatim>\<open>rest_framework.permissions\<close>: \<^verbatim>\<open>IsAuthenticated\<close> is
  \<^verbatim>\<open>bool(request.user and request.user.is_authenticated)\<close> and \<^verbatim>\<open>IsAdminUser\<close> is
  \<^verbatim>\<open>bool(request.user and request.user.is_staff)\<close>; the anonymous user is neither.
\<close>

definition IsAuthenticated :: "principal \<Rightarrow> http_method \<Rightarrow> bool" where
  "IsAuthenticated p m = (case p of None \<Rightarrow> False | Some u \<Rightarrow> True)"

definition IsAdminUser :: "principal \<Rightarrow> http_method \<Rightarrow> bool" where
  "IsAdminUser p m = (case p of None \<Rightarrow> False | Some u \<Rightarrow> is_staff u)"

text \<open>
  Modelled from the spec: \<^verbatim>\<open>airport/permissions.py\<close> is not among the sources. The
  class \<^verbatim>\<open>IsAdminOrIfAuthenticatedReadOnly\<close> guards the Airplane resource, whose policy
  the spec gives as "authenticated users may read; only admins write": a safe method
  needs an authenticated user, any other method a staff user.
\<close>

definition IsAdminOrIfAuthenticatedReadOnly :: "principal \<Rightarrow> http_method \<Rightarrow> bool" where
  "IsAdminOrIfAuthenticatedReadOnly p m =
     (case p of
        None \<Rightarrow> False
      | Some u \<Rightarrow> m \<in> set SAFE_METHODS \<or> is_staff u)"

text \<open>
  Modelled from the spec: \<^verbatim>\<open>IsAdminOrReadOnly\<close> (also of
  \<^verbatim>\<open>airport/permissions.py\<close>) guards Airport, Route and Flight, whose policy the spec
  gives as "unauthenticated or regular users may read; only staff-flagged users may
  create/update/delete".
\<close>

definition IsAdminOrReadOnly :: "principal \<Rightarrow> http_method \<Rightarrow> bool" where
  "IsAdminOrReadOnly p m =
     (m \<in> set SAFE_METHODS \<or> (case p of None \<Rightarrow> False | Some u \<Rightarrow> is_staff u))"

datatype viewset =
    CrewViewSet
  | AirplaneTypeViewSet
  | AirplaneViewSet
  | AirportViewSet
  | RouteViewSet
  | FlightViewSet
  | OrderViewSet
  | CountryViewSet
  | CityViewSet
  | ChatSupportViewSet

text \<open>The \<^verbatim>\<open>permission_classes\<close> attribute of each viewset, as the views declare it.\<close>

fun permission_classes :: "viewset \<Rightarrow> (principal \<Rightarrow> http_method \<Rightarrow> bool) list" where
  "permission_classes CrewViewSet = [IsAdminOrIfAuthenticatedReadOnly]"
| "permission_classes AirplaneTypeViewSet = [IsAdminUser]"
| "permission_classes AirplaneViewSet = [IsAdminOrIfAuthenticatedReadOnly]"
| "permission_classes AirportViewSet = [IsAdminOrReadOnly]"
| "permission_classes RouteViewSet = [IsAdminOrReadOnly]"
| "permission_classes FlightViewSet = [IsAdminOrReadOnly]"
| "permission_classes OrderViewSet = [IsAuthenticated]"
| "permission_classes CountryViewSet = [IsAdminUser]"
| "permission_classes CityViewSet = [IsAdminUser]"
| "permission_classes ChatSupportViewSet = [IsAdminUser]"

text \<open>
  \<^verbatim>\<open>APIView.permission_denied\<close>: a request that did not authenticate raises
  \<^verbatim>\<open>NotAuthenticated\<close>, an authenticated one \<^verbatim>\<open>PermissionDenied\<close>.
\<close>

definition permission_denied :: "principal \<Rightarrow> exn" where
  "permission_denied p = (case p of None \<Rightarrow> NotAuthenticated | Some u \<Rightarrow> PermissionDenied)"

text \<open>
  \<^verbatim>\<open>APIView.check_permissions\<close> runs before the handler of every action: the first
  permission class that refuses ends the request.
\<close>

definition check_permissions :: "viewset \<Rightarrow> principal \<Rightarrow> http_method \<Rightarrow> exn option" where
  "check_permissions v p m =
     (if list_all (\<lambda>perm. perm p m) (permission_classes v) then None
      else Some (permission_denied p))"

text \<open>
  \<^verbatim>\<open>APIView.dispatch\<close>: the handler \<open>h\<close> runs on the store only when the
  permission check passes; otherwise the exception is the response and the store is
  the one the request found.
\<close>

definition dispatch ::
  "viewset \<Rightarrow> principal \<Rightarrow> http_method \<Rightarrow> ('s \<Rightarrow> (exn + 'r) \<times> 's) \<Rightarrow> 's \<Rightarrow> (exn + 'r) \<times> 's" where
  "dispatch v p m h s =
     (case check_permissions v p m of
        Some e \<Rightarrow> (Inl e, s)
      | None \<Rightarrow> h s)"

section \<open>The support chat (\<^verbatim>\<open>chat_msg/views.py\<close>)\<close>

text \<open>
  A support thread with its flags, its author and its many-to-many \<^verbatim>\<open>user_list\<close>
  (the ids of the member users, each at most once); a message with its author
  (\<^verbatim>\<open>user\<close>) and its thread (\<^verbatim>\<open>support_msg\<close>). The store holds the rows of both
  tables.
\<close>

record ChatSupport =
  chat_id :: nat
  enabled :: bool
  is_support :: bool
  author_created :: nat
  user_list :: "nat list"

record ChatMessage =
  message_id :: nat
  message_text :: string
  message_user :: nat
  support_msg :: nat

record chat_store =
  chats :: "ChatSupport list"
  messages :: "ChatMessage list"

datatype chat_body =
    Detail string
  | ChatList "ChatSupport list"
  | ChatData ChatSupport
  | MessageData ChatMessage
  | SerializerErrors "string list"

type_synonym chat_result = "(exn + nat \<times> chat_body) \<times> chat_store"

text \<open>\<^verbatim>\<open>get_object_or_404(ChatSupport, pk=pk)\<close>: the row with that key, whatever its flags.\<close>

definition get_ChatSupport_or_404 :: "chat_store \<Rightarrow> nat \<Rightarrow> exn + ChatSupport" where
  "get_ChatSupport_or_404 s pk =
     (case find (\<lambda>c. chat_id c = pk) (chats s) of
        None \<Rightarrow> Inl Http404
      | Some c \<Rightarrow> Inr c)"

text \<open>
  The related manager of \<^verbatim>\<open>user_list\<close>: \<^verbatim>\<open>add\<close> inserts the membership row when
  it is missing, \<^verbatim>\<open>remove\<close> deletes it. Both write the thread's row of the store.
\<close>

definition m2m_add :: "nat \<Rightarrow> nat list \<Rightarrow> nat list" where
  "m2m_add uid xs = (if uid \<in> set xs then xs else xs @ [uid])"

definition m2m_remove :: "nat \<Rightarrow> nat list \<Rightarrow> nat list" where
  "m2m_remove uid xs = removeAll uid xs"

definition save_ChatSupport :: "ChatSupport \<Rightarrow> chat_store \<Rightarrow> chat_store" where
  "save_ChatSupport c s =
     s\<lparr>chats := map (\<lambda>c'. if chat_id c' = chat_id c then c else c') (chats s)\<rparr>"

definition connect_support_to_chat :: "user \<Rightarrow> nat \<Rightarrow> chat_store \<Rightarrow> chat_result" where
  "connect_support_to_chat request_user pk s =
     (case get_ChatSupport_or_404 s pk of
        Inl e \<Rightarrow> (Inl e, s)
      | Inr msg_support \<Rightarrow>
          if user_id request_user \<notin> set (user_list msg_support)
          then (Inr (200, Detail ''Support is successfully connected to the chat.''),
                save_ChatSupport
                  (msg_support\<lparr>user_list := m2m_add (user_id request_user) (user_list msg_support)\<rparr>) s)
          else (Inr (400, Detail ''User already connected to the chat.''), s))"

definition disconnect_user_from_chat :: "user \<Rightarrow> nat \<Rightarrow> chat_store \<Rightarrow> chat_result" where
  "disconnect_user_from_chat request_user pk s =
     (case get_ChatSupport_or_404 s pk of
        Inl e \<Rightarrow> (Inl e, s)
      | Inr msg_support \<Rightarrow>
          if user_id request_user \<in> set (user_list msg_support)
          then (Inr (200, Detail ''Support is successfully deleted from the chat.''),
                save_ChatSupport
                  (msg_support\<lparr>user_list := m2m_remove (user_id request_user) (user_list msg_support)\<rparr>) s)
          else (Inr (400, Detail ''User not in chat.''), s))"

text \<open>
  A request to the chat viewset: the permission check of the class (or of the action,
  for the two membership actions; both are \<^verbatim>\<open>IsAdminUser\<close>), then the handler with the
  authenticated user. The anonymous user never passes the check.
\<close>

definition chat_request ::
  "principal \<Rightarrow> http_method \<Rightarrow> (user \<Rightarrow> chat_store \<Rightarrow> chat_result) \<Rightarrow> chat_store \<Rightarrow> chat_result" where
  "chat_request p m h s =
     dispatch ChatSupportViewSet p m
       (\<lambda>s'. case p of None \<Rightarrow> (Inl NotAuthenticated, s') | Some u \<Rightarrow> h u s') s"

text \<open>The members of thread \<open>pk\<close> in a store (none when there is no such thread).\<close>

definition members :: "chat_store \<Rightarrow> nat \<Rightarrow> nat set" where
  "members s pk =
     (case find (\<lambda>c. chat_id c = pk) (chats s) of
        None \<Rightarrow> {}
      | Some c \<Rightarrow> set (user_list c))"

text \<open>
  \<^verbatim>\<open>ChatSupportViewSet.get_queryset\<close>: the class attribute \<^verbatim>\<open>queryset\<close> keeps the
  enabled threads only; a user who is not staff gets those whose \<^verbatim>\<open>user_list\<close> holds
  the user, a staff user those flagged \<^verbatim>\<open>is_support\<close>.
\<close>

definition ChatSupportViewSet_queryset :: "chat_store \<Rightarrow> ChatSupport list" where
  "ChatSupportViewSet_queryset s = filter enabled (chats s)"

definition ChatSupportViewSet_get_queryset :: "user \<Rightarrow> chat_store \<Rightarrow> ChatSupport list" where
  "ChatSupportViewSet_get_queryset request_user s =
     (let queryset = ChatSupportViewSet_queryset s in
      if \<not> is_staff request_user
      then filter (\<lambda>c. user_id request_user \<in> set (user_list c)) queryset
      else if is_staff request_user
      then filter is_support queryset
      else queryset)"

text \<open>
  The mixins of \<^verbatim>\<open>ModelViewSet\<close>: \<^verbatim>\<open>list\<close> answers with the queryset;
  \<^verbatim>\<open>get_object\<close> looks the key up in the queryset and raises \<^verbatim>\<open>Http404\<close> when it
  is not there; \<^verbatim>\<open>retrieve\<close>, \<^verbatim>\<open>update\<close> and \<^verbatim>\<open>destroy\<close> all start with
  \<^verbatim>\<open>get_object\<close> and go on with the object found (\<open>k\<close>: serialising it, saving it
  through the serializer, deleting it).
\<close>

definition ChatSupportViewSet_list :: "user \<Rightarrow> chat_store \<Rightarrow> chat_result" where
  "ChatSupportViewSet_list request_user s =
     (Inr (200, ChatList (ChatSupportViewSet_get_queryset request_user s)), s)"

definition ChatSupportViewSet_get_object :: "user \<Rightarrow> nat \<Rightarrow> chat_store \<Rightarrow> exn + ChatSupport" where
  "ChatSupportViewSet_get_object request_user pk s =
     (case find (\<lambda>c. chat_id c = pk) (ChatSupportViewSet_get_queryset request_user s) of
        None \<Rightarrow> Inl Http404
      | Some c \<Rightarrow> Inr c)"

definition ChatSupportViewSet_detail ::
  "(ChatSupport \<Rightarrow> chat_store \<Rightarrow> chat_result) \<Rightarrow> user \<Rightarrow> nat \<Rightarrow> chat_store \<Rightarrow> chat_result" where
  "ChatSupportViewSet_detail k request_user pk s =
     (case ChatSupportViewSet_get_object request_user pk s of
        Inl e \<Rightarrow> (Inl e, s)
      | Inr c \<Rightarrow> k c s)"

definition ChatSupportViewSet_retrieve :: "user \<Rightarrow> nat \<Rightarrow> chat_store \<Rightarrow> chat_result" where
  "ChatSupportViewSet_retrieve = ChatSupportViewSet_detail (\<lambda>c s. (Inr (200, ChatData c), s))"

text \<open>
  Modelled from the spec: \<^verbatim>\<open>chat_msg/serializers.py\<close> is not among the sources.
  \<^verbatim>\<open>ChatMessageSerializerCreate\<close> is the write shape of a message, with the fields the
  spec's data model gives a message and the client may set: its text and its thread
  \<^verbatim>\<open>support_msg\<close>, "accept[ed] as bare identifiers and validate[d for] existence".
  A field the request leaves out is an error, except under \<^verbatim>\<open>partial=True\<close>.
\<close>

record message_data =
  data_text :: "string option"
  data_support_msg :: "nat option"

definition chat_exists :: "chat_store \<Rightarrow> nat \<Rightarrow> bool" where
  "chat_exists s pk = (find (\<lambda>c. chat_id c = pk) (chats s) \<noteq> None)"

definition ChatMessageSerializerCreate_errors :: "bool \<Rightarrow> chat_store \<Rightarrow> message_data \<Rightarrow> string list" where
  "ChatMessageSerializerCreate_errors partial s d =
     (case data_text d of
        None \<Rightarrow> if partial then [] else [''text'']
      | Some t \<Rightarrow> []) @
     (case data_support_msg d of
        None \<Rightarrow> if partial then [] else [''support_msg'']
      | Some c \<Rightarrow> if chat_exists s c then [] else [''support_msg''])"

text \<open>The key of a new row: one more than the largest key of the table.\<close>

definition next_id :: "nat list \<Rightarrow> nat" where
  "next_id ids = Suc (fold max ids 0)"

text \<open>
  \<^verbatim>\<open>create_message\<close>: the handler copies the request's data, writes the path's key into
  the copy under \<^verbatim>\<open>support_msg\<close>, and then builds the serializer from
  \<^verbatim>\<open>request.data\<close>, not from the copy. \<^verbatim>\<open>serializer.save(user=request.user)\<close> inserts
  the message with the validated fields and that author.
\<close>

definition create_message :: "user \<Rightarrow> nat \<Rightarrow> message_data \<Rightarrow> chat_store \<Rightarrow> chat_result" where
  "create_message request_user pk request_data s =
     (let data = request_data\<lparr>data_support_msg := Some pk\<rparr>;
          errors = ChatMessageSerializerCreate_errors False s request_data
      in case (errors, data_text request_data, data_support_msg request_data) of
           ([], Some t, Some c) \<Rightarrow>
             (let message = \<lparr>message_id = next_id (map message_id (messages s)),
                             message_text = t,
                             message_user = user_id request_user,
                             support_msg = c\<rparr>
              in (Inr (200, MessageData message), s\<lparr>messages := messages s @ [message]\<rparr>))
         | _ \<Rightarrow> (Inr (400, SerializerErrors errors), s))"

text \<open>
  \<^verbatim>\<open>get_object_or_404(ChatMessage, id=message_pk, user=request.user)\<close>: the lookup is by
  key and author together.
\<close>

definition get_ChatMessage_or_404 :: "chat_store \<Rightarrow> nat \<Rightarrow> user \<Rightarrow> exn + ChatMessage" where
  "get_ChatMessage_or_404 s message_pk request_user =
     (case find (\<lambda>m. message_id m = message_pk \<and> message_user m = user_id request_user) (messages s) of
        None \<Rightarrow> Inl Http404
      | Some m \<Rightarrow> Inr m)"

definition save_ChatMessage :: "ChatMessage \<Rightarrow> chat_store \<Rightarrow> chat_store" where
  "save_ChatMessage m s =
     s\<lparr>messages := map (\<lambda>m'. if message_id m' = message_id m then m else m') (messages s)\<rparr>"

definition delete_ChatMessage :: "ChatMessage \<Rightarrow> chat_store \<Rightarrow> chat_store" where
  "delete_ChatMessage m s =
     s\<lparr>messages := filter (\<lambda>m'. message_id m' \<noteq> message_id m) (messages s)\<rparr>"

text \<open>
  \<^verbatim>\<open>update_message\<close>: a partial update of the message found, with the fields the
  request gives.
\<close>

definition update_message :: "user \<Rightarrow> nat \<Rightarrow> nat \<Rightarrow> message_data \<Rightarrow> chat_store \<Rightarrow> chat_result" where
  "update_message request_user pk message_pk request_data s =
     (case get_ChatMessage_or_404 s message_pk request_user of
        Inl e \<Rightarrow> (Inl e, s)
      | Inr message \<Rightarrow>
          (let errors = ChatMessageSerializerCreate_errors True s request_data in
           if errors = []
           then (let message' = message
                       \<lparr>message_text := (case data_text request_data of
                                            None \<Rightarrow> message_text message | Some t \<Rightarrow> t),
                        support_msg := (case data_support_msg request_data of
                                          None \<Rightarrow> support_msg message | Some c \<Rightarrow> c)\<rparr>
                 in (Inr (200, MessageData message'), save_ChatMessage message' s))
           else (Inr (400, SerializerErrors errors), s)))"

definition delete_message :: "user \<Rightarrow> nat \<Rightarrow> nat \<Rightarrow> chat_store \<Rightarrow> chat_result" where
  "delete_message request_user pk message_pk s =
     (case get_ChatMessage_or_404 s message_pk request_user of
        Inl e \<Rightarrow> (Inl e, s)
      | Inr message \<Rightarrow>
          (Inr (204, Detail ''Message deleted successfully.''), delete_ChatMessage message s))"

section \<open>Flights, orders and tickets (\<^verbatim>\<open>airport/views.py\<close>)\<close>

text \<open>
  The rows of the tables the views read: an airplane with its \<^verbatim>\<open>rows\<close> and
  \<^verbatim>\<open>seats_in_row\<close> (integer columns), a flight with its two timestamps and its
  airplane and route keys, a ticket with its place, flight and order, an order with its
  user. A timestamp is a calendar date and a time of day.
\<close>

record date =
  year :: nat
  month :: nat
  day :: nat

record datetime =
  dt_date :: date
  dt_hour :: nat
  dt_minute :: nat
  dt_second :: nat

record Airplane =
  airplane_id :: nat
  airplane_name :: string
  rows :: int
  seats_in_row :: int
  airplane_type :: nat

record Flight =
  flight_id :: nat
  departure_time :: datetime
  arrival_time :: datetime
  flight_airplane :: nat
  flight_route :: nat

record Ticket =
  ticket_id :: nat
  ticket_row :: int
  ticket_seat :: int
  ticket_flight :: nat
  ticket_order :: nat

record Order =
  order_id :: nat
  order_user :: nat

record store =
  airplanes :: "Airplane list"
  flights :: "Flight list"
  tickets :: "Ticket list"
  orders :: "Order list"

subsection \<open>The query parameters of the flight list\<close>

text \<open>
  \<^verbatim>\<open>params_to_ints\<close> splits its argument at the commas and converts every piece with
  the builtin \<^verbatim>\<open>int\<close>, which raises \<^verbatim>\<open>ValueError\<close> on a piece that is no integer
  literal. The builtin is the parameter \<open>int_of_str\<close> (\<open>None\<close> where it raises).
\<close>

fun split_comma :: "string \<Rightarrow> string list" where
  "split_comma [] = [[]]"
| "split_comma (c # cs) =
     (if c = CHR '','' then [] # split_comma cs
      else (case split_comma cs of
              [] \<Rightarrow> [[c]]
            | piece # pieces \<Rightarrow> (c # piece) # pieces))"

fun params_to_ints :: "(string \<Rightarrow> int option) \<Rightarrow> string list \<Rightarrow> exn + int list" where
  "params_to_ints int_of_str [] = Inr []"
| "params_to_ints int_of_str (str_id # str_ids) =
     (case int_of_str str_id of
        None \<Rightarrow> Inl ValueError
      | Some n \<Rightarrow>
          (case params_to_ints int_of_str str_ids of
             Inl e \<Rightarrow> Inl e
           | Inr ns \<Rightarrow> Inr (n # ns)))"

text \<open>
  \<^verbatim>\<open>datetime.strptime(departure_time, "%Y-%m-%d").date()\<close>. The format is compiled to
  the regular expression
  \<^verbatim>\<open>(?P<Y>\d\d\d\d)-(?P<m>1[0-2]|0[1-9]|[1-9])-(?P<d>3[0-1]|[1-2]\d|0[1-9]|[1-9]| [1-9])\<close>,
  matched at the start of the string, alternatives in their order; the call raises
  \<^verbatim>\<open>ValueError\<close> when there is no match, when text remains after the match, and when
  the three numbers are no date of the calendar (year 0, or a day the month lacks).
\<close>

definition is_digit :: "char \<Rightarrow> bool" where
  "is_digit c = (c \<in> set ''0123456789'')"

definition digit_val :: "char \<Rightarrow> nat" where
  "digit_val c = of_char c - 48"

definition in_range :: "char \<Rightarrow> char \<Rightarrow> char \<Rightarrow> bool" where
  "in_range lo hi c = ((of_char lo :: nat) \<le> of_char c \<and> (of_char c :: nat) \<le> of_char hi)"

fun match_Y :: "string \<Rightarrow> (nat \<times> string) list" where
  "match_Y (a # b # c # d # rest) =
     (if is_digit a \<and> is_digit b \<and> is_digit c \<and> is_digit d
      then [(1000 * digit_val a + 100 * digit_val b + 10 * digit_val c + digit_val d, rest)]
      else [])"
| "match_Y s = []"

fun match_dash :: "string \<Rightarrow> string list" where
  "match_dash (c # rest) = (if c = CHR ''-'' then [rest] else [])"
| "match_dash [] = []"

fun two_chars :: "(char \<Rightarrow> bool) \<Rightarrow> (char \<Rightarrow> bool) \<Rightarrow> string \<Rightarrow> (nat \<times> string) list" where
  "two_chars P Q (a # b # rest) =
     (if P a \<and> Q b then [(10 * (if is_digit a then digit_val a else 0) + digit_val b, rest)] else [])"
| "two_chars P Q s = []"

fun one_char :: "(char \<Rightarrow> bool) \<Rightarrow> string \<Rightarrow> (nat \<times> string) list" where
  "one_char P (a # rest) = (if P a then [(digit_val a, rest)] else [])"
| "one_char P [] = []"

definition match_m :: "string \<Rightarrow> (nat \<times> string) list" where
  "match_m s =
     two_chars (\<lambda>c. c = CHR ''1'') (in_range CHR ''0'' CHR ''2'') s @
     two_chars (\<lambda>c. c = CHR ''0'') (in_range CHR ''1'' CHR ''9'') s @
     one_char (in_range CHR ''1'' CHR ''9'') s"

definition match_d :: "string \<Rightarrow> (nat \<times> string) list" where
  "match_d s =
     two_chars (\<lambda>c. c = CHR ''3'') (in_range CHR ''0'' CHR ''1'') s @
     two_chars (in_range CHR ''1'' CHR ''2'') is_digit s @
     two_chars (\<lambda>c. c = CHR ''0'') (in_range CHR ''1'' CHR ''9'') s @
     one_char (in_range CHR ''1'' CHR ''9'') s @
     two_chars (\<lambda>c. c = CHR '' '') (in_range CHR ''1'' CHR ''9'') s"

text \<open>All the ways the expression matches a prefix, in the matcher's order of trial.\<close>

definition regex_Ymd :: "string \<Rightarrow> (nat \<times> nat \<times> nat \<times> string) list" where
  "regex_Ymd s =
     [(y, m, d, s5).
        (y, s1) \<leftarrow> match_Y s, s2 \<leftarrow> match_dash s1,
        (m, s3) \<leftarrow> match_m s2, s4 \<leftarrow> match_dash s3,
        (d, s5) \<leftarrow> match_d s4]"

definition is_leap :: "nat \<Rightarrow> bool" where
  "is_leap y = (y mod 4 = 0 \<and> (y mod 100 \<noteq> 0 \<or> y mod 400 = 0))"

definition days_in_month :: "nat \<Rightarrow> nat \<Rightarrow> nat" where
  "days_in_month y m =
     (if m = 2 then (if is_leap y then 29 else 28)
      else if m \<in> {4, 6, 9, 11} then 30
      else 31)"

definition strptime_date :: "string \<Rightarrow> exn + date" where
  "strptime_date data_string =
     (case regex_Ymd data_string of
        [] \<Rightarrow> Inl ValueError
      | (y, m, d, rest) # others \<Rightarrow>
          if rest \<noteq> [] then Inl ValueError
          else if y < 1 \<or> days_in_month y m < d then Inl ValueError
          else Inr \<lparr>year = y, month = m, day = d\<rparr>)"

subsection \<open>\<^verbatim>\<open>FlightViewSet.get_queryset\<close>\<close>

text \<open>
  A row of the flight queryset: the flight joined with its airplane
  (\<^verbatim>\<open>select_related\<close>), and the annotation \<^verbatim>\<open>free_tickets_seat\<close> when the query
  computes it.
\<close>

record flight_row =
  row_flight :: Flight
  row_airplane :: Airplane
  free_tickets_seat :: "int option"

definition FlightViewSet_queryset :: "store \<Rightarrow> flight_row list" where
  "FlightViewSet_queryset s =
     [\<lparr>row_flight = f, row_airplane = a, free_tickets_seat = None\<rparr>.
        f \<leftarrow> flights s, a \<leftarrow> airplanes s, airplane_id a = flight_airplane f]"

text \<open>\<^verbatim>\<open>Count("tickets")\<close>: the tickets of the store whose flight is the row's.\<close>

definition count_tickets :: "store \<Rightarrow> Flight \<Rightarrow> int" where
  "count_tickets s f = int (length (filter (\<lambda>t. ticket_flight t = flight_id f) (tickets s)))"

definition annotate_free_tickets_seat :: "store \<Rightarrow> flight_row \<Rightarrow> flight_row" where
  "annotate_free_tickets_seat s r =
     r\<lparr>free_tickets_seat :=
         Some (rows (row_airplane r) * seats_in_row (row_airplane r) - count_tickets s (row_flight r))\<rparr>"

text \<open>
  A query parameter is absent (\<open>None\<close>) or a string; the tests \<^verbatim>\<open>if route:\<close> and
  \<^verbatim>\<open>if departure_time:\<close> pass for a string that is not empty (the parameter is
  \<open>departure_time_q\<close> here, the column \<open>departure_time\<close>). Nothing in
  \<^verbatim>\<open>get_queryset\<close> catches the \<^verbatim>\<open>ValueError\<close> of either conversion.
\<close>

definition truthy :: "string option \<Rightarrow> bool" where
  "truthy q = (case q of None \<Rightarrow> False | Some v \<Rightarrow> v \<noteq> [])"

definition filter_route ::
  "(string \<Rightarrow> int option) \<Rightarrow> string option \<Rightarrow> flight_row list \<Rightarrow> exn + flight_row list" where
  "filter_route int_of_str route queryset =
     (case route of
        None \<Rightarrow> Inr queryset
      | Some v \<Rightarrow>
          if v = [] then Inr queryset
          else (case params_to_ints int_of_str (split_comma v) of
                  Inl e \<Rightarrow> Inl e
                | Inr route_ids \<Rightarrow>
                    Inr (filter (\<lambda>r. int (flight_route (row_flight r)) \<in> set route_ids) queryset)))"

definition filter_departure_time :: "string option \<Rightarrow> flight_row list \<Rightarrow> exn + flight_row list" where
  "filter_departure_time departure_time_q queryset =
     (case departure_time_q of
        None \<Rightarrow> Inr queryset
      | Some v \<Rightarrow>
          if v = [] then Inr queryset
          else (case strptime_date v of
                  Inl e \<Rightarrow> Inl e
                | Inr d \<Rightarrow>
                    Inr (filter (\<lambda>r. dt_date (departure_time (row_flight r)) = d) queryset)))"

definition FlightViewSet_get_queryset ::
  "(string \<Rightarrow> int option) \<Rightarrow> action \<Rightarrow> string option \<Rightarrow> string option \<Rightarrow> store \<Rightarrow> exn + flight_row list" where
  "FlightViewSet_get_queryset int_of_str act route departure_time_q s =
     (case filter_route int_of_str route (FlightViewSet_queryset s) of
        Inl e \<Rightarrow> Inl e
      | Inr queryset1 \<Rightarrow>
          (case filter_departure_time departure_time_q queryset1 of
             Inl e \<Rightarrow> Inl e
           | Inr queryset2 \<Rightarrow>
               if act \<in> {A_list, A_retrieve}
               then Inr (map (annotate_free_tickets_seat s) queryset2)
               else Inr queryset2))"

text \<open>
  \<^verbatim>\<open>retrieve\<close> answers with the row of the queryset that has the key, and raises
  \<^verbatim>\<open>Http404\<close> when none has; \<^verbatim>\<open>list\<close> answers with a page of the queryset.
\<close>

definition FlightViewSet_retrieve ::
  "(string \<Rightarrow> int option) \<Rightarrow> string option \<Rightarrow> string option \<Rightarrow> nat \<Rightarrow> store \<Rightarrow> exn + flight_row" where
  "FlightViewSet_retrieve int_of_str route departure_time_q pk s =
     (case FlightViewSet_get_queryset int_of_str A_retrieve route departure_time_q s of
        Inl e \<Rightarrow> Inl e
      | Inr queryset \<Rightarrow>
          (case find (\<lambda>r. flight_id (row_flight r) = pk) queryset of
             None \<Rightarrow> Inl Http404
           | Some r \<Rightarrow> Inr r))"

subsection \<open>\<^verbatim>\<open>OrderViewSet\<close>\<close>

text \<open>
  \<^verbatim>\<open>get_queryset\<close> keeps the orders of the requesting user, without duplicates;
  \<^verbatim>\<open>retrieve\<close> looks the key up in that queryset.
\<close>

definition OrderViewSet_get_queryset :: "user \<Rightarrow> store \<Rightarrow> Order list" where
  "OrderViewSet_get_queryset request_user s =
     remdups (filter (\<lambda>ord. order_user ord = user_id request_user) (orders s))"

definition OrderViewSet_retrieve :: "user \<Rightarrow> nat \<Rightarrow> store \<Rightarrow> exn + Order" where
  "OrderViewSet_retrieve request_user pk s =
     (case find (\<lambda>ord. order_id ord = pk) (OrderViewSet_get_queryset request_user s) of
        None \<Rightarrow> Inl Http404
      | Some ord \<Rightarrow> Inr ord)"

text \<open>
  The body of an order-creation request: the list of ticket specifications, and
  whatever user key the client may have put beside it.
\<close>

record ticket_data =
  data_row :: int
  data_seat :: int
  data_flight :: nat

record order_data =
  data_user :: "nat option"
  data_tickets :: "ticket_data list"

text \<open>
  Modelled from the spec: \<^verbatim>\<open>airport/serializers.py\<close> and \<^verbatim>\<open>airport/models.py\<close>
  are not among the sources. "Each ticket is revalidated against its flight's airplane
  capacity and against uniqueness of (flight, row, seat) before commit": the flight key
  must name a flight (joined with its airplane), the row lies in \<open>[1, rows]\<close>, the seat
  in \<open>[1, seats_in_row]\<close>, and no ticket of the store has the same flight, row and seat.
  A violation is a validation error on the field at fault.
\<close>

definition airplane_of_flight :: "store \<Rightarrow> nat \<Rightarrow> Airplane list" where
  "airplane_of_flight s pk =
     [a. f \<leftarrow> flights s, flight_id f = pk, a \<leftarrow> airplanes s, airplane_id a = flight_airplane f]"

definition slot_taken :: "store \<Rightarrow> ticket_data \<Rightarrow> bool" where
  "slot_taken s d =
     list_ex (\<lambda>t. ticket_flight t = data_flight d \<and> ticket_row t = data_row d
                  \<and> ticket_seat t = data_seat d) (tickets s)"

definition validate_ticket :: "store \<Rightarrow> ticket_data \<Rightarrow> exn option" where
  "validate_ticket s d =
     (case airplane_of_flight s (data_flight d) of
        [] \<Rightarrow> Some (ValidationError ''flight'')
      | airplane # others \<Rightarrow>
          if \<not> (1 \<le> data_row d \<and> data_row d \<le> rows airplane)
          then Some (ValidationError ''row'')
          else if \<not> (1 \<le> data_seat d \<and> data_seat d \<le> seats_in_row airplane)
          then Some (ValidationError ''seat'')
          else if slot_taken s d
          then Some (ValidationError ''non_field_errors'')
          else None)"

text \<open>
  Modelled from the spec: "creation must be atomic - either the whole order and all
  tickets persist, or none do ... any violation aborts the whole order with a
  field-level error and no partial insert". \<^verbatim>\<open>OrderSerializer.create\<close> opens a
  transaction, inserts the order, then checks and inserts the tickets one after the
  other; the first violation raises, and the transaction restores the store it began
  with.
\<close>

definition insert_ticket :: "Order \<Rightarrow> ticket_data \<Rightarrow> store \<Rightarrow> store" where
  "insert_ticket ord d s =
     s\<lparr>tickets := tickets s @
          [\<lparr>ticket_id = next_id (map ticket_id (tickets s)),
            ticket_row = data_row d,
            ticket_seat = data_seat d,
            ticket_flight = data_flight d,
            ticket_order = order_id ord\<rparr>]\<rparr>"

fun create_tickets :: "Order \<Rightarrow> ticket_data list \<Rightarrow> store \<Rightarrow> exn + store" where
  "create_tickets ord [] s = Inr s"
| "create_tickets ord (d # ds) s =
     (case validate_ticket s d of
        Some e \<Rightarrow> Inl e
      | None \<Rightarrow> create_tickets ord ds (insert_ticket ord d s))"

definition OrderSerializer_create :: "nat \<Rightarrow> ticket_data list \<Rightarrow> store \<Rightarrow> (exn + Order) \<times> store" where
  "OrderSerializer_create uid tickets_data s =
     (let ord = \<lparr>order_id = next_id (map order_id (orders s)), order_user = uid\<rparr> in
      case create_tickets ord tickets_data (s\<lparr>orders := orders s @ [ord]\<rparr>) of
        Inl e \<Rightarrow> (Inl e, s)
      | Inr s' \<Rightarrow> (Inr ord, s'))"

text \<open>
  \<^verbatim>\<open>perform_create\<close> is \<^verbatim>\<open>serializer.save(user=self.request.user)\<close>. The framework's
  \<^verbatim>\<open>save\<close> lays its keyword arguments over the validated data
  (\<^verbatim>\<open>{**self.validated_data, **kwargs}\<close>) and calls \<^verbatim>\<open>create\<close> with the result: the
  user of the request replaces any user the body named.
\<close>

definition serializer_save_user :: "order_data \<Rightarrow> user \<Rightarrow> nat \<times> ticket_data list" where
  "serializer_save_user validated_data request_user =
     (let merged = validated_data\<lparr>data_user := Some (user_id request_user)\<rparr> in
      (case data_user merged of
         None \<Rightarrow> user_id request_user
       | Some uid \<Rightarrow> uid,
       data_tickets merged))"

definition OrderViewSet_perform_create :: "user \<Rightarrow> order_data \<Rightarrow> store \<Rightarrow> (exn + Order) \<times> store" where
  "OrderViewSet_perform_create request_user validated_data s =
     (case serializer_save_user validated_data request_user of
        (uid, tickets_data) \<Rightarrow> OrderSerializer_create uid tickets_data s)"

text \<open>
  The \<^verbatim>\<open>create\<close> action of the viewset: the permission check
  (\<^verbatim>\<open>IsAuthenticated\<close>), then \<^verbatim>\<open>perform_create\<close>, then the answer 201 with the order.
\<close>

definition OrderViewSet_create :: "principal \<Rightarrow> order_data \<Rightarrow> store \<Rightarrow> (exn + nat \<times> Order) \<times> store" where
  "OrderViewSet_create p request_data s =
     dispatch OrderViewSet p POST
       (\<lambda>s'. case p of
                None \<Rightarrow> (Inl NotAuthenticated, s')
              | Some request_user \<Rightarrow>
                  (case OrderViewSet_perform_create request_user request_data s' of
                     (Inl e, s'') \<Rightarrow> (Inl e, s'')
                   | (Inr ord, s'') \<Rightarrow> (Inr (201, ord), s''))) s"

text \<open>
  The vocabulary of the atomicity property: a ticket specification is acceptable in a
  store when its flight is known, its place lies inside the airplane and the place is
  free; a request is acceptable when every specification is and no two name the same
  place of the same flight.
\<close>

definition slot :: "ticket_data \<Rightarrow> nat \<times> int \<times> int" where
  "slot d = (data_flight d, data_row d, data_seat d)"

definition ticket_ok :: "store \<Rightarrow> ticket_data \<Rightarrow> bool" where
  "ticket_ok s d =
     (case airplane_of_flight s (data_flight d) of
        [] \<Rightarrow> False
      | airplane # others \<Rightarrow>
          1 \<le> data_row d \<and> data_row d \<le> rows airplane \<and>
          1 \<le> data_seat d \<and> data_seat d \<le> seats_in_row airplane \<and>
          \<not> slot_taken s d)"

definition all_valid :: "store \<Rightarrow> ticket_data list \<Rightarrow> bool" where
  "all_valid s ds = (list_all (ticket_ok s) ds \<and> distinct (map slot ds))"

definition ticket_slot :: "Ticket \<Rightarrow> nat \<times> int \<times> int" where
  "ticket_slot t = (ticket_flight t, ticket_row t, ticket_seat t)"

section \<open>Properties of the support chat\<close>

subsection \<open>Membership\<close>

lemma find_save_same:
  "find (\<lambda>c. chat_id c = pk) xs = Some c \<Longrightarrow> chat_id c' = chat_id c \<Longrightarrow>
   find (\<lambda>x. chat_id x = pk) (map (\<lambda>x. if chat_id x = chat_id c' then c' else x) xs) = Some c'"
  by (induction xs) (auto split: if_splits)

lemma find_Some_chat_id: "find (\<lambda>c. chat_id c = pk) xs = Some c \<Longrightarrow> chat_id c = pk"
  by (induction xs) (auto split: if_splits)

lemma find_save_other:
  "pk' \<noteq> chat_id c' \<Longrightarrow>
   find (\<lambda>x. chat_id x = pk') (map (\<lambda>x. if chat_id x = chat_id c' then c' else x) xs)
     = find (\<lambda>x. chat_id x = pk') xs"
  by (induction xs) (auto split: if_splits)

lemma staff_passes_chat_gate:
  "is_staff u \<Longrightarrow> chat_request (Some u) m h s = h u s"
  by (simp add: chat_request_def dispatch_def check_permissions_def IsAdminUser_def)

lemma members_save_same:
  "find (\<lambda>c. chat_id c = pk) (chats s) = Some c \<Longrightarrow>
   members (save_ChatSupport (c\<lparr>user_list := xs\<rparr>) s) pk = set xs"
  using find_save_same[of pk "chats s" c "c\<lparr>user_list := xs\<rparr>"]
  by (simp add: members_def save_ChatSupport_def)

lemma members_save_other:
  "pk' \<noteq> chat_id c \<Longrightarrow> members (save_ChatSupport (c\<lparr>user_list := xs\<rparr>) s) pk' = members s pk'"
  using find_save_other[of pk' "c\<lparr>user_list := xs\<rparr>" "chats s"]
  by (simp add: members_def save_ChatSupport_def)

text \<open>
  Claim C6. Chat membership transitions are strict. For every thread \<open>c\<close> of the store
  and every staff caller \<open>u\<close>: \<^verbatim>\<open>connect_support_to_chat\<close> adds \<open>u\<close> to the members
  of \<open>c\<close> and answers 200 when \<open>u\<close> is not a member, and answers 400 with the store
  unchanged when \<open>u\<close> is one; \<^verbatim>\<open>disconnect_user_from_chat\<close> removes \<open>u\<close> and answers
  200 when \<open>u\<close> is a member, and answers 400 with the store unchanged when \<open>u\<close> is
  not. A successful transition changes the members of no other thread and no message.
\<close>

theorem chat_membership_strict:
  assumes c: "find (\<lambda>c. chat_id c = pk) (chats s) = Some c" and staff: "is_staff u"
  shows "(user_id u \<notin> set (user_list c) \<longrightarrow>
            (\<exists>s'. chat_request (Some u) PUT (\<lambda>u. connect_support_to_chat u pk) s
                     = (Inr (200, Detail ''Support is successfully connected to the chat.''), s')
                 \<and> members s' pk = insert (user_id u) (members s pk)
                 \<and> (\<forall>pk'. pk' \<noteq> pk \<longrightarrow> members s' pk' = members s pk')
                 \<and> messages s' = messages s))
       \<and> (user_id u \<in> set (user_list c) \<longrightarrow>
            chat_request (Some u) PUT (\<lambda>u. connect_support_to_chat u pk) s
              = (Inr (400, Detail ''User already connected to the chat.''), s))
       \<and> (user_id u \<in> set (user_list c) \<longrightarrow>
            (\<exists>s'. chat_request (Some u) PUT (\<lambda>u. disconnect_user_from_chat u pk) s
                     = (Inr (200, Detail ''Support is successfully deleted from the chat.''), s')
                 \<and> members s' pk = members s pk - {user_id u}
                 \<and> (\<forall>pk'. pk' \<noteq> pk \<longrightarrow> members s' pk' = members s pk')
                 \<and> messages s' = messages s))
       \<and> (user_id u \<notin> set (user_list c) \<longrightarrow>
            chat_request (Some u) PUT (\<lambda>u. disconnect_user_from_chat u pk) s
              = (Inr (400, Detail ''User not in chat.''), s))"
proof -
  have id: "chat_id c = pk" using c by (rule find_Some_chat_id)
  have m: "members s pk = set (user_list c)" using c by (simp add: members_def)
  have g: "get_ChatSupport_or_404 s pk = Inr c" using c by (simp add: get_ChatSupport_or_404_def)
  have oth: "\<And>xs pk'. pk' \<noteq> pk \<Longrightarrow> members (save_ChatSupport (c\<lparr>user_list := xs\<rparr>) s) pk' = members s pk'"
    using members_save_other[of _ c] id by simp
  have msgs: "\<And>xs. messages (save_ChatSupport (c\<lparr>user_list := xs\<rparr>) s) = messages s"
    by (simp add: save_ChatSupport_def)
  show ?thesis
    using staff g m oth msgs members_save_same[OF c]
    by (simp add: staff_passes_chat_gate connect_support_to_chat_def disconnect_user_from_chat_def
        m2m_add_def m2m_remove_def)
qed


text \<open>
  The spec's scenario: staff user 7 connects to thread 3 twice; the first request
  answers 200 and adds the user, the second answers 400. Disconnecting a user who is
  not a member answers 400.
\<close>

theorem chat_membership_strict_witness:
  "chat_request (Some \<lparr>user_id = 7, is_staff = True\<rparr>) PUT (\<lambda>u. connect_support_to_chat u 3)
     \<lparr>chats = [\<lparr>chat_id = 3, enabled = True, is_support = True, author_created = 1, user_list = [1]\<rparr>],
      messages = []\<rparr>
   = (Inr (200, Detail ''Support is successfully connected to the chat.''),
      \<lparr>chats = [\<lparr>chat_id = 3, enabled = True, is_support = True, author_created = 1, user_list = [1, 7]\<rparr>],
       messages = []\<rparr>)
   \<and> chat_request (Some \<lparr>user_id = 7, is_staff = True\<rparr>) PUT (\<lambda>u. connect_support_to_chat u 3)
     \<lparr>chats = [\<lparr>chat_id = 3, enabled = True, is_support = True, author_created = 1, user_list = [1, 7]\<rparr>],
      messages = []\<rparr>
   = (Inr (400, Detail ''User already connected to the chat.''),
      \<lparr>chats = [\<lparr>chat_id = 3, enabled = True, is_support = True, author_created = 1, user_list = [1, 7]\<rparr>],
       messages = []\<rparr>)
   \<and> chat_request (Some \<lparr>user_id = 7, is_staff = True\<rparr>) PUT (\<lambda>u. disconnect_user_from_chat u 3)
     \<lparr>chats = [\<lparr>chat_id = 3, enabled = True, is_support = True, author_created = 1, user_list = [1]\<rparr>],
      messages = []\<rparr>
   = (Inr (400, Detail ''User not in chat.''),
      \<lparr>chats = [\<lparr>chat_id = 3, enabled = True, is_support = True, author_created = 1, user_list = [1]\<rparr>],
       messages = []\<rparr>)"
  using chat_membership_strict
    [of 3 "\<lparr>chats = [\<lparr>chat_id = 3, enabled = True, is_support = True, author_created = 1, user_list = [1, 7]\<rparr>],
            messages = []\<rparr>"
        "\<lparr>chat_id = 3, enabled = True, is_support = True, author_created = 1, user_list = [1, 7]\<rparr>"
        "\<lparr>user_id = 7, is_staff = True\<rparr>"]
    chat_membership_strict
    [of 3 "\<lparr>chats = [\<lparr>chat_id = 3, enabled = True, is_support = True, author_created = 1, user_list = [1]\<rparr>],
            messages = []\<rparr>"
        "\<lparr>chat_id = 3, enabled = True, is_support = True, author_created = 1, user_list = [1]\<rparr>"
        "\<lparr>user_id = 7, is_staff = True\<rparr>"]
  by (simp add: chat_request_def dispatch_def check_permissions_def IsAdminUser_def
      connect_support_to_chat_def get_ChatSupport_or_404_def save_ChatSupport_def m2m_add_def)

subsection \<open>The gate of the chat viewset\<close>

text \<open>
  Every action of \<^verbatim>\<open>ChatSupportViewSet\<close> stands behind \<^verbatim>\<open>IsAdminUser\<close>: the
  class declares it, the custom message actions inherit it, and the two membership
  actions name it again. A user who is not staff is stopped with
  \<^verbatim>\<open>PermissionDenied\<close>, the anonymous user with \<^verbatim>\<open>NotAuthenticated\<close>, and the
  store is untouched.
\<close>

lemma nonstaff_stopped_at_chat_gate:
  "\<not> is_staff u \<Longrightarrow> chat_request (Some u) m h s = (Inl PermissionDenied, s)"
  by (simp add: chat_request_def dispatch_def check_permissions_def IsAdminUser_def
      permission_denied_def)

lemma anonymous_stopped_at_chat_gate:
  "chat_request None m h s = (Inl NotAuthenticated, s)"
  by (simp add: chat_request_def dispatch_def check_permissions_def IsAdminUser_def
      permission_denied_def)

lemma chat_gate_cases:
  "chat_request p m h s =
     (case p of None \<Rightarrow> (Inl NotAuthenticated, s)
      | Some u \<Rightarrow> if is_staff u then h u s else (Inl PermissionDenied, s))"
  by (cases p) (simp_all add: anonymous_stopped_at_chat_gate nonstaff_stopped_at_chat_gate
      staff_passes_chat_gate)

lemma set_ChatSupportViewSet_get_queryset:
  "set (ChatSupportViewSet_get_queryset u s) =
     {c \<in> set (chats s). enabled c \<and>
        (if is_staff u then is_support c else user_id u \<in> set (user_list c))}"
  by (auto simp: ChatSupportViewSet_get_queryset_def ChatSupportViewSet_queryset_def Let_def)

lemma find_None_iff_no_key: "(find P xs = None) = (\<forall>x\<in>set xs. \<not> P x)"
  by (induction xs) auto

lemma disabled_not_found:
  assumes "\<forall>c\<in>set (chats s). chat_id c = pk \<longrightarrow> \<not> enabled c"
  shows "ChatSupportViewSet_get_object u pk s = Inl Http404"
proof -
  have "find (\<lambda>c. chat_id c = pk) (ChatSupportViewSet_get_queryset u s) = None"
    using assms by (auto simp: find_None_iff_no_key set_ChatSupportViewSet_get_queryset)
  then show ?thesis by (simp add: ChatSupportViewSet_get_object_def)
qed

subsection \<open>The thread of a new message\<close>

text \<open>
  Claim C9. The thread a new message is attached to is the \<^verbatim>\<open>support_msg\<close> of the
  request body, not the key of the path. For a caller the gate admits and a body that
  validates (a text, and a \<^verbatim>\<open>support_msg\<close> naming an existing thread \<open>c\<close>),
  \<^verbatim>\<open>create_message\<close> under any path key \<open>pk\<close> answers 200 and appends one message
  whose thread is \<open>c\<close> and whose author is the caller. For every caller, body and
  store, the outcome of the request is the same under every path key: the copy that
  received the path key is never read.
\<close>

theorem create_message_chat_from_body:
  assumes "is_staff u" and "data_text d = Some t" and "data_support_msg d = Some c"
    and "chat_exists s c"
  shows "(\<exists>msg. chat_request (Some u) POST (\<lambda>u. create_message u pk d) s
                 = (Inr (200, MessageData msg), s\<lparr>messages := messages s @ [msg]\<rparr>)
              \<and> support_msg msg = c \<and> message_user msg = user_id u \<and> message_text msg = t)
       \<and> (\<forall>p pk' d' s'. chat_request p POST (\<lambda>u. create_message u pk' d') s'
                 = chat_request p POST (\<lambda>u. create_message u pk d') s')"
  using assms
  by (simp add: staff_passes_chat_gate chat_gate_cases create_message_def
      ChatMessageSerializerCreate_errors_def Let_def split: option.splits)

text \<open>
  A request to path key 1 whose body names thread 2: the message is created in
  thread 2.
\<close>

theorem create_message_chat_from_body_witness:
  "chat_request (Some \<lparr>user_id = 7, is_staff = True\<rparr>) POST
     (\<lambda>u. create_message u 1 \<lparr>data_text = Some ''hello'', data_support_msg = Some 2\<rparr>)
     \<lparr>chats = [\<lparr>chat_id = 1, enabled = True, is_support = True, author_created = 7, user_list = [7]\<rparr>,
               \<lparr>chat_id = 2, enabled = True, is_support = True, author_created = 5, user_list = [5]\<rparr>],
      messages = []\<rparr>
   = (Inr (200, MessageData \<lparr>message_id = 1, message_text = ''hello'', message_user = 7, support_msg = 2\<rparr>),
      \<lparr>chats = [\<lparr>chat_id = 1, enabled = True, is_support = True, author_created = 7, user_list = [7]\<rparr>,
                \<lparr>chat_id = 2, enabled = True, is_support = True, author_created = 5, user_list = [5]\<rparr>],
       messages = [\<lparr>message_id = 1, message_text = ''hello'', message_user = 7, support_msg = 2\<rparr>]\<rparr>)"
  using create_message_chat_from_body
    [of "\<lparr>user_id = 7, is_staff = True\<rparr>"
        "\<lparr>data_text = Some ''hello'', data_support_msg = Some 2\<rparr>" "''hello''" 2
        "\<lparr>chats = [\<lparr>chat_id = 1, enabled = True, is_support = True, author_created = 7, user_list = [7]\<rparr>,
               \<lparr>chat_id = 2, enabled = True, is_support = True, author_created = 5, user_list = [5]\<rparr>],
          messages = []\<rparr>" 1]
  by (simp add: chat_exists_def chat_request_def dispatch_def check_permissions_def IsAdminUser_def
      create_message_def ChatMessageSerializerCreate_errors_def next_id_def Let_def)

subsection \<open>Disabled threads\<close>

lemma find_distinct_key:
  "distinct (map f xs) \<Longrightarrow> c \<in> set xs \<Longrightarrow> find (\<lambda>x. f x = f c) xs = Some c"
  by (induction xs) (auto simp: image_iff)

lemma distinct_key_unique:
  "distinct (map f xs) \<Longrightarrow> c \<in> set xs \<Longrightarrow> c' \<in> set xs \<Longrightarrow> f c' = f c \<Longrightarrow> c' = c"
  by (induction xs) (auto simp: image_iff)

lemma connect_on_found:
  "find (\<lambda>c. chat_id c = pk) (chats s) = Some c \<Longrightarrow>
   connect_support_to_chat u pk s =
     (if user_id u \<notin> set (user_list c)
      then (Inr (200, Detail ''Support is successfully connected to the chat.''),
            save_ChatSupport (c\<lparr>user_list := user_list c @ [user_id u]\<rparr>) s)
      else (Inr (400, Detail ''User already connected to the chat.''), s))"
  by (simp add: connect_support_to_chat_def get_ChatSupport_or_404_def m2m_add_def)

lemma disconnect_on_found:
  "find (\<lambda>c. chat_id c = pk) (chats s) = Some c \<Longrightarrow>
   disconnect_user_from_chat u pk s =
     (if user_id u \<in> set (user_list c)
      then (Inr (200, Detail ''Support is successfully deleted from the chat.''),
            save_ChatSupport (c\<lparr>user_list := removeAll (user_id u) (user_list c)\<rparr>) s)
      else (Inr (400, Detail ''User not in chat.''), s))"
  by (simp add: disconnect_user_from_chat_def get_ChatSupport_or_404_def m2m_remove_def)

text \<open>
  Claim C10, as amended. Let \<open>c\<close> be a thread of the store with \<^verbatim>\<open>enabled = False\<close>
  (keys being unique). No caller's list contains \<open>c\<close>. For every caller, every method
  and every continuation, a detail action (\<^verbatim>\<open>retrieve\<close>, \<^verbatim>\<open>update\<close>,
  \<^verbatim>\<open>destroy\<close>) on the key of \<open>c\<close> leaves the store unchanged and raises either
  \<^verbatim>\<open>Http404\<close> or the gate's refusal; for every caller the gate admits it raises
  \<^verbatim>\<open>Http404\<close>. \<^verbatim>\<open>connect_support_to_chat\<close> and \<^verbatim>\<open>disconnect_user_from_chat\<close> by
  a staff caller find \<open>c\<close> by its key and change its members with status 200.
\<close>

theorem disabled_chat_hidden:
  assumes keys: "distinct (map chat_id (chats s))" and c: "c \<in> set (chats s)"
    and off: "\<not> enabled c"
  shows "(\<forall>p st cs s'. chat_request p GET ChatSupportViewSet_list s = (Inr (st, ChatList cs), s')
            \<longrightarrow> c \<notin> set cs)
       \<and> (\<forall>p m k. snd (chat_request p m (\<lambda>u. ChatSupportViewSet_detail k u (chat_id c)) s) = s
            \<and> fst (chat_request p m (\<lambda>u. ChatSupportViewSet_detail k u (chat_id c)) s)
                \<in> {Inl Http404, Inl (permission_denied p)})
       \<and> (\<forall>u m k. is_staff u \<longrightarrow>
            chat_request (Some u) m (\<lambda>u. ChatSupportViewSet_detail k u (chat_id c)) s
              = (Inl Http404, s))
       \<and> (\<forall>u. is_staff u \<and> user_id u \<notin> set (user_list c) \<longrightarrow>
            (\<exists>s'. chat_request (Some u) PUT (\<lambda>u. connect_support_to_chat u (chat_id c)) s
                     = (Inr (200, Detail ''Support is successfully connected to the chat.''), s')
                 \<and> members s' (chat_id c) = insert (user_id u) (set (user_list c))))
       \<and> (\<forall>u. is_staff u \<and> user_id u \<in> set (user_list c) \<longrightarrow>
            (\<exists>s'. chat_request (Some u) PUT (\<lambda>u. disconnect_user_from_chat u (chat_id c)) s
                     = (Inr (200, Detail ''Support is successfully deleted from the chat.''), s')
                 \<and> members s' (chat_id c) = set (user_list c) - {user_id u}))"
proof -
  have found: "find (\<lambda>x. chat_id x = chat_id c) (chats s) = Some c"
    using keys c by (rule find_distinct_key)
  have only: "\<forall>c'\<in>set (chats s). chat_id c' = chat_id c \<longrightarrow> \<not> enabled c'"
    using distinct_key_unique[OF keys c] off by blast
  have gone: "\<And>u. ChatSupportViewSet_get_object u (chat_id c) s = Inl Http404"
    using only by (rule disabled_not_found)
  have det: "\<And>k u. ChatSupportViewSet_detail k u (chat_id c) s = (Inl Http404, s)"
    by (simp add: ChatSupportViewSet_detail_def gone)
  have lst: "\<And>u. c \<notin> set (ChatSupportViewSet_get_queryset u s)"
    using off by (simp add: set_ChatSupportViewSet_get_queryset)
  have 1: "\<forall>p st cs s'. chat_request p GET ChatSupportViewSet_list s = (Inr (st, ChatList cs), s')
            \<longrightarrow> c \<notin> set cs"
    using lst by (auto simp: chat_gate_cases ChatSupportViewSet_list_def split: option.splits if_splits)
  have 2: "\<forall>p m k. snd (chat_request p m (\<lambda>u. ChatSupportViewSet_detail k u (chat_id c)) s) = s
            \<and> fst (chat_request p m (\<lambda>u. ChatSupportViewSet_detail k u (chat_id c)) s)
                \<in> {Inl Http404, Inl (permission_denied p)}"
    by (simp add: chat_gate_cases det permission_denied_def split: option.splits)
  have 3: "\<forall>u m k. is_staff u \<longrightarrow>
            chat_request (Some u) m (\<lambda>u. ChatSupportViewSet_detail k u (chat_id c)) s
              = (Inl Http404, s)"
    by (simp add: staff_passes_chat_gate det)
  have 4: "\<forall>u. is_staff u \<and> user_id u \<notin> set (user_list c) \<longrightarrow>
            (\<exists>s'. chat_request (Some u) PUT (\<lambda>u. connect_support_to_chat u (chat_id c)) s
                     = (Inr (200, Detail ''Support is successfully connected to the chat.''), s')
                 \<and> members s' (chat_id c) = insert (user_id u) (set (user_list c)))"
    using members_save_same[OF found]
    by (simp add: staff_passes_chat_gate connect_on_found[OF found])
  have 5: "\<forall>u. is_staff u \<and> user_id u \<in> set (user_list c) \<longrightarrow>
            (\<exists>s'. chat_request (Some u) PUT (\<lambda>u. disconnect_user_from_chat u (chat_id c)) s
                     = (Inr (200, Detail ''Support is successfully deleted from the chat.''), s')
                 \<and> members s' (chat_id c) = set (user_list c) - {user_id u})"
    using members_save_same[OF found]
    by (simp add: staff_passes_chat_gate disconnect_on_found[OF found])
  from 1 2 3 4 5 show ?thesis by blast
qed


text \<open>
  Thread 3 is disabled: staff user 7 gets \<^verbatim>\<open>Http404\<close> on retrieve and an empty
  list, and connects to it with status 200.
\<close>

theorem disabled_chat_hidden_witness:
  "chat_request (Some \<lparr>user_id = 7, is_staff = True\<rparr>) GET (\<lambda>u. ChatSupportViewSet_retrieve u 3)
     \<lparr>chats = [\<lparr>chat_id = 3, enabled = False, is_support = True, author_created = 1, user_list = [1]\<rparr>],
      messages = []\<rparr>
   = (Inl Http404,
     \<lparr>chats = [\<lparr>chat_id = 3, enabled = False, is_support = True, author_created = 1, user_list = [1]\<rparr>],
      messages = []\<rparr>)
   \<and> chat_request (Some \<lparr>user_id = 7, is_staff = True\<rparr>) GET ChatSupportViewSet_list
     \<lparr>chats = [\<lparr>chat_id = 3, enabled = False, is_support = True, author_created = 1, user_list = [1]\<rparr>],
      messages = []\<rparr>
   = (Inr (200, ChatList []),
     \<lparr>chats = [\<lparr>chat_id = 3, enabled = False, is_support = True, author_created = 1, user_list = [1]\<rparr>],
      messages = []\<rparr>)
   \<and> chat_request (Some \<lparr>user_id = 7, is_staff = True\<rparr>) PUT (\<lambda>u. connect_support_to_chat u 3)
     \<lparr>chats = [\<lparr>chat_id = 3, enabled = False, is_support = True, author_created = 1, user_list = [1]\<rparr>],
      messages = []\<rparr>
   = (Inr (200, Detail ''Support is successfully connected to the chat.''),
     \<lparr>chats = [\<lparr>chat_id = 3, enabled = False, is_support = True, author_created = 1, user_list = [1, 7]\<rparr>],
      messages = []\<rparr>)"
  using disabled_chat_hidden
    [of "\<lparr>chats = [\<lparr>chat_id = 3, enabled = False, is_support = True, author_created = 1, user_list = [1]\<rparr>],
      messages = []\<rparr>"
        "\<lparr>chat_id = 3, enabled = False, is_support = True, author_created = 1, user_list = [1]\<rparr>"]
  by (simp add: ChatSupportViewSet_retrieve_def chat_request_def dispatch_def check_permissions_def
      IsAdminUser_def ChatSupportViewSet_list_def ChatSupportViewSet_get_queryset_def
      ChatSupportViewSet_queryset_def connect_support_to_chat_def get_ChatSupport_or_404_def
      save_ChatSupport_def m2m_add_def)

text \<open>
  Claim C10 as stated ("for every caller ... retrieve ... yield not-found") fails for
  the anonymous caller: the permission check ends the request with
  \<^verbatim>\<open>NotAuthenticated\<close> before any lookup.
\<close>

theorem disabled_chat_anonymous_counterexample:
  "chat_request None GET (\<lambda>u. ChatSupportViewSet_retrieve u 3)
     \<lparr>chats = [\<lparr>chat_id = 3, enabled = False, is_support = True, author_created = 1, user_list = [1]\<rparr>],
      messages = []\<rparr>
   = (Inl NotAuthenticated,
     \<lparr>chats = [\<lparr>chat_id = 3, enabled = False, is_support = True, author_created = 1, user_list = [1]\<rparr>],
      messages = []\<rparr>)
   \<and> exception_handler NotAuthenticated = Some 401
   \<and> exception_handler Http404 = Some 404"
  by (simp add: chat_request_def dispatch_def check_permissions_def IsAdminUser_def
      permission_denied_def)

subsection \<open>Visibility of threads\<close>

text \<open>
  A staff user's list is exactly the enabled threads flagged \<^verbatim>\<open>is_support\<close>. The
  branch of \<^verbatim>\<open>get_queryset\<close> for a user who is not staff selects exactly the
  enabled threads whose \<^verbatim>\<open>user_list\<close> holds the user.
\<close>

lemma staff_sees_support_queues:
  "is_staff u \<Longrightarrow>
   chat_request (Some u) GET ChatSupportViewSet_list s
     = (Inr (200, ChatList (filter (\<lambda>c. enabled c \<and> is_support c) (chats s))), s)"
  by (simp add: staff_passes_chat_gate ChatSupportViewSet_list_def ChatSupportViewSet_get_queryset_def
      ChatSupportViewSet_queryset_def)

lemma regular_user_queryset:
  "\<not> is_staff u \<Longrightarrow>
   ChatSupportViewSet_get_queryset u s
     = filter (\<lambda>c. enabled c \<and> user_id u \<in> set (user_list c)) (chats s)"
  by (simp add: ChatSupportViewSet_get_queryset_def ChatSupportViewSet_queryset_def conj_commute)

text \<open>
  Claim C4 at a regular user. User 2 is not staff and is a member of the enabled
  thread 3: \<^verbatim>\<open>get_queryset\<close> would select the thread for this user, but both
  \<^verbatim>\<open>list\<close> and \<^verbatim>\<open>retrieve\<close> end at the permission check with
  \<^verbatim>\<open>PermissionDenied\<close> (status 403).
\<close>

theorem chat_list_regular_user_forbidden:
  "chat_request (Some \<lparr>user_id = 2, is_staff = False\<rparr>) GET ChatSupportViewSet_list
     \<lparr>chats = [\<lparr>chat_id = 3, enabled = True, is_support = False, author_created = 2, user_list = [2]\<rparr>],
      messages = []\<rparr>
   = (Inl PermissionDenied,
     \<lparr>chats = [\<lparr>chat_id = 3, enabled = True, is_support = False, author_created = 2, user_list = [2]\<rparr>],
      messages = []\<rparr>)
   \<and> chat_request (Some \<lparr>user_id = 2, is_staff = False\<rparr>) GET (\<lambda>u. ChatSupportViewSet_retrieve u 3)
     \<lparr>chats = [\<lparr>chat_id = 3, enabled = True, is_support = False, author_created = 2, user_list = [2]\<rparr>],
      messages = []\<rparr>
   = (Inl PermissionDenied,
     \<lparr>chats = [\<lparr>chat_id = 3, enabled = True, is_support = False, author_created = 2, user_list = [2]\<rparr>],
      messages = []\<rparr>)
   \<and> ChatSupportViewSet_get_queryset \<lparr>user_id = 2, is_staff = False\<rparr>
     \<lparr>chats = [\<lparr>chat_id = 3, enabled = True, is_support = False, author_created = 2, user_list = [2]\<rparr>],
      messages = []\<rparr>
   = [\<lparr>chat_id = 3, enabled = True, is_support = False, author_created = 2, user_list = [2]\<rparr>]
   \<and> exception_handler PermissionDenied = Some 403"
  by (simp add: chat_request_def dispatch_def check_permissions_def IsAdminUser_def
      permission_denied_def ChatSupportViewSet_get_queryset_def ChatSupportViewSet_queryset_def)

subsection \<open>Editing and deleting messages\<close>

text \<open>
  The lookup of \<^verbatim>\<open>update_message\<close> and \<^verbatim>\<open>delete_message\<close> is by key and author:
  a staff caller who is not the author of the message gets \<^verbatim>\<open>Http404\<close> and the
  store is unchanged; a staff caller who is the author deletes the message.
\<close>

lemma message_lookup_not_author:
  assumes "\<forall>m\<in>set (messages s). message_id m = message_pk \<longrightarrow> message_user m \<noteq> user_id u"
  shows "get_ChatMessage_or_404 s message_pk u = Inl Http404"
proof -
  have "find (\<lambda>m. message_id m = message_pk \<and> message_user m = user_id u) (messages s) = None"
    using assms by (auto simp: find_None_iff_no_key)
  then show ?thesis by (simp add: get_ChatMessage_or_404_def)
qed

lemma staff_not_author_gets_404:
  assumes "is_staff u"
    and "\<forall>m\<in>set (messages s). message_id m = message_pk \<longrightarrow> message_user m \<noteq> user_id u"
  shows "chat_request (Some u) PUT (\<lambda>u. update_message u pk message_pk d) s = (Inl Http404, s)"
    and "chat_request (Some u) DELETE (\<lambda>u. delete_message u pk message_pk) s = (Inl Http404, s)"
  using assms(1) message_lookup_not_author[OF assms(2)]
  by (simp_all add: staff_passes_chat_gate update_message_def delete_message_def)

lemma find_narrowed:
  "find P xs = Some m \<Longrightarrow> Q m \<Longrightarrow> find (\<lambda>x. P x \<and> Q x) xs = Some m"
  by (induction xs) (auto split: if_splits)

lemma staff_author_deletes:
  assumes "is_staff u" and "distinct (map message_id (messages s))"
    and "m \<in> set (messages s)" and "message_user m = user_id u"
  shows "chat_request (Some u) DELETE (\<lambda>u. delete_message u pk (message_id m)) s
           = (Inr (204, Detail ''Message deleted successfully.''),
              s\<lparr>messages := filter (\<lambda>m'. message_id m' \<noteq> message_id m) (messages s)\<rparr>)"
proof -
  have "find (\<lambda>x. message_id x = message_id m) (messages s) = Some m"
    using assms(2,3) by (rule find_distinct_key)
  then have "find (\<lambda>x. message_id x = message_id m \<and> message_user x = user_id u) (messages s) = Some m"
    using assms(4) by (simp add: find_narrowed)
  then show ?thesis
    using assms(1)
    by (simp add: staff_passes_chat_gate delete_message_def get_ChatMessage_or_404_def
        delete_ChatMessage_def)
qed

text \<open>
  Claim C7 at a regular user. Message 1 is written by user 1. User 2 (not staff, not
  the author) asks to update and to delete it: both requests end at the permission
  check with \<^verbatim>\<open>PermissionDenied\<close> (status 403, not 404), and so does the update by
  the author, user 1, who is not staff either. The handler alone, without the check,
  answers user 2 with \<^verbatim>\<open>Http404\<close>.
\<close>

theorem message_mutation_regular_user_forbidden:
  "chat_request (Some \<lparr>user_id = 2, is_staff = False\<rparr>) PUT
     (\<lambda>u. update_message u 3 1 \<lparr>data_text = Some ''edited'', data_support_msg = None\<rparr>)
     \<lparr>chats = [\<lparr>chat_id = 3, enabled = True, is_support = True, author_created = 1, user_list = [1, 2]\<rparr>],
      messages = [\<lparr>message_id = 1, message_text = ''hello'', message_user = 1, support_msg = 3\<rparr>]\<rparr>
   = (Inl PermissionDenied,
     \<lparr>chats = [\<lparr>chat_id = 3, enabled = True, is_support = True, author_created = 1, user_list = [1, 2]\<rparr>],
      messages = [\<lparr>message_id = 1, message_text = ''hello'', message_user = 1, support_msg = 3\<rparr>]\<rparr>)
   \<and> chat_request (Some \<lparr>user_id = 2, is_staff = False\<rparr>) DELETE (\<lambda>u. delete_message u 3 1)
     \<lparr>chats = [\<lparr>chat_id = 3, enabled = True, is_support = True, author_created = 1, user_list = [1, 2]\<rparr>],
      messages = [\<lparr>message_id = 1, message_text = ''hello'', message_user = 1, support_msg = 3\<rparr>]\<rparr>
   = (Inl PermissionDenied,
     \<lparr>chats = [\<lparr>chat_id = 3, enabled = True, is_support = True, author_created = 1, user_list = [1, 2]\<rparr>],
      messages = [\<lparr>message_id = 1, message_text = ''hello'', message_user = 1, support_msg = 3\<rparr>]\<rparr>)
   \<and> chat_request (Some \<lparr>user_id = 1, is_staff = False\<rparr>) PUT
     (\<lambda>u. update_message u 3 1 \<lparr>data_text = Some ''edited'', data_support_msg = None\<rparr>)
     \<lparr>chats = [\<lparr>chat_id = 3, enabled = True, is_support = True, author_created = 1, user_list = [1, 2]\<rparr>],
      messages = [\<lparr>message_id = 1, message_text = ''hello'', message_user = 1, support_msg = 3\<rparr>]\<rparr>
   = (Inl PermissionDenied,
     \<lparr>chats = [\<lparr>chat_id = 3, enabled = True, is_support = True, author_created = 1, user_list = [1, 2]\<rparr>],
      messages = [\<lparr>message_id = 1, message_text = ''hello'', message_user = 1, support_msg = 3\<rparr>]\<rparr>)
   \<and> update_message \<lparr>user_id = 2, is_staff = False\<rparr> 3 1
       \<lparr>data_text = Some ''edited'', data_support_msg = None\<rparr>
     \<lparr>chats = [\<lparr>chat_id = 3, enabled = True, is_support = True, author_created = 1, user_list = [1, 2]\<rparr>],
      messages = [\<lparr>message_id = 1, message_text = ''hello'', message_user = 1, support_msg = 3\<rparr>]\<rparr>
   = (Inl Http404,
     \<lparr>chats = [\<lparr>chat_id = 3, enabled = True, is_support = True, author_created = 1, user_list = [1, 2]\<rparr>],
      messages = [\<lparr>message_id = 1, message_text = ''hello'', message_user = 1, support_msg = 3\<rparr>]\<rparr>)
   \<and> exception_handler PermissionDenied = Some 403
   \<and> exception_handler Http404 = Some 404"
  by (simp add: chat_request_def dispatch_def check_permissions_def IsAdminUser_def
      permission_denied_def update_message_def get_ChatMessage_or_404_def)

section \<open>Properties of the flight queryset\<close>

subsection \<open>The filter \<^verbatim>\<open>departure_time\<close>\<close>

lemma strptime_date_raises: "strptime_date v = Inl e \<Longrightarrow> e = ValueError"
  by (auto simp: strptime_date_def split: list.splits if_splits prod.splits)

lemma filter_route_raises: "filter_route f route q = Inl e \<Longrightarrow> e = ValueError"
proof -
  have "\<And>xs e. params_to_ints f xs = Inl e \<Longrightarrow> e = ValueError"
    subgoal for xs e
      by (induction xs arbitrary: e) (auto split: option.splits sum.splits)
    done
  then show "filter_route f route q = Inl e \<Longrightarrow> e = ValueError"
    by (auto simp: filter_route_def split: option.splits if_splits sum.splits)
qed

lemma row_flight_annotate [simp]: "row_flight (annotate_free_tickets_seat s r) = row_flight r"
  by (simp add: annotate_free_tickets_seat_def)

lemma row_airplane_annotate [simp]: "row_airplane (annotate_free_tickets_seat s r) = row_airplane r"
  by (simp add: annotate_free_tickets_seat_def)

text \<open>
  Claim C8, as amended. A value of \<^verbatim>\<open>departure_time\<close> that is not empty and that
  \<^verbatim>\<open>strptime\<close> reads as the date \<open>d\<close> selects, from the queryset the request would
  have without the parameter, exactly the rows whose departure timestamp has the
  calendar date \<open>d\<close>, whatever its time of day. For a value that is not empty and that
  \<^verbatim>\<open>strptime\<close> does not read, \<^verbatim>\<open>get_queryset\<close> raises \<^verbatim>\<open>ValueError\<close>, for which
  the exception handler has no response: the request ends as an unhandled server
  error, not as a validation error. An empty value filters nothing.
\<close>

theorem departure_time_filter:
  "(\<forall>d. v \<noteq> [] \<and> strptime_date v = Inr d \<longrightarrow>
       FlightViewSet_get_queryset int_of_str act route (Some v) s =
         (case FlightViewSet_get_queryset int_of_str act route None s of
            Inl e \<Rightarrow> Inl e
          | Inr queryset \<Rightarrow>
              Inr (filter (\<lambda>r. dt_date (departure_time (row_flight r)) = d) queryset)))
   \<and> (v \<noteq> [] \<and> (\<forall>d. strptime_date v \<noteq> Inr d) \<longrightarrow>
       FlightViewSet_get_queryset int_of_str act route (Some v) s = Inl ValueError
       \<and> exception_handler ValueError = None)
   \<and> FlightViewSet_get_queryset int_of_str act route (Some []) s
       = FlightViewSet_get_queryset int_of_str act route None s"
proof -
  have bad: "(\<forall>d. strptime_date v \<noteq> Inr d) \<Longrightarrow> strptime_date v = Inl ValueError"
    using strptime_date_raises[of v] by (cases "strptime_date v") auto
  show ?thesis
    using bad filter_route_raises[of int_of_str route "FlightViewSet_queryset s"]
    by (auto simp: FlightViewSet_get_queryset_def filter_departure_time_def filter_map o_def
        split: sum.splits)
qed


text \<open>The unfoldings that evaluate a query on a concrete store.\<close>

lemmas strptime_simps =
  strptime_date_def regex_Ymd_def match_m_def match_d_def is_digit_def digit_val_def
  in_range_def days_in_month_def is_leap_def

lemmas flight_query_simps =
  FlightViewSet_get_queryset_def filter_route_def filter_departure_time_def
  FlightViewSet_queryset_def annotate_free_tickets_seat_def count_tickets_def

text \<open>
  The spec's scenario: of three flights, two leave on 2024-03-01 (at 00:05:00 and at
  23:59:59) and one on 2024-03-02; \<^verbatim>\<open>departure_time=2024-03-01\<close> returns the first
  two. The value \<^verbatim>\<open>2024-03\<close> raises.
\<close>

theorem departure_time_filter_witness:
  "strptime_date ''2024-03-01'' = Inr \<lparr>year = 2024, month = 3, day = 1\<rparr>
   \<and> (case FlightViewSet_get_queryset (\<lambda>x. None) A_list None (Some ''2024-03-01'')
     \<lparr>airplanes = [\<lparr>airplane_id = 1, airplane_name = ''A'', rows = 2, seats_in_row = 3, airplane_type = 1\<rparr>],
      flights = [\<lparr>flight_id = 1,
                  departure_time = \<lparr>dt_date = \<lparr>year = 2024, month = 3, day = 1\<rparr>, dt_hour = 0, dt_minute = 5, dt_second = 0\<rparr>,
                  arrival_time = \<lparr>dt_date = \<lparr>year = 2024, month = 3, day = 1\<rparr>, dt_hour = 9, dt_minute = 0, dt_second = 0\<rparr>,
                  flight_airplane = 1, flight_route = 1\<rparr>,
                 \<lparr>flight_id = 2,
                  departure_time = \<lparr>dt_date = \<lparr>year = 2024, month = 3, day = 1\<rparr>, dt_hour = 23, dt_minute = 59, dt_second = 59\<rparr>,
                  arrival_time = \<lparr>dt_date = \<lparr>year = 2024, month = 3, day = 2\<rparr>, dt_hour = 4, dt_minute = 0, dt_second = 0\<rparr>,
                  flight_airplane = 1, flight_route = 2\<rparr>,
                 \<lparr>flight_id = 3,
                  departure_time = \<lparr>dt_date = \<lparr>year = 2024, month = 3, day = 2\<rparr>, dt_hour = 0, dt_minute = 0, dt_second = 0\<rparr>,
                  arrival_time = \<lparr>dt_date = \<lparr>year = 2024, month = 3, day = 2\<rparr>, dt_hour = 4, dt_minute = 0, dt_second = 0\<rparr>,
                  flight_airplane = 1, flight_route = 1\<rparr>],
      tickets = [\<lparr>ticket_id = 1, ticket_row = 1, ticket_seat = 1, ticket_flight = 1, ticket_order = 1\<rparr>,
                 \<lparr>ticket_id = 2, ticket_row = 1, ticket_seat = 2, ticket_flight = 1, ticket_order = 1\<rparr>],
      orders = [\<lparr>order_id = 1, order_user = 5\<rparr>]\<rparr> of
        Inl e \<Rightarrow> []
      | Inr queryset \<Rightarrow> map (\<lambda>r. flight_id (row_flight r)) queryset) = [1, 2]
   \<and> FlightViewSet_get_queryset (\<lambda>x. None) A_list None (Some ''2024-03'')
     \<lparr>airplanes = [\<lparr>airplane_id = 1, airplane_name = ''A'', rows = 2, seats_in_row = 3, airplane_type = 1\<rparr>],
      flights = [\<lparr>flight_id = 1,
                  departure_time = \<lparr>dt_date = \<lparr>year = 2024, month = 3, day = 1\<rparr>, dt_hour = 0, dt_minute = 5, dt_second = 0\<rparr>,
                  arrival_time = \<lparr>dt_date = \<lparr>year = 2024, month = 3, day = 1\<rparr>, dt_hour = 9, dt_minute = 0, dt_second = 0\<rparr>,
                  flight_airplane = 1, flight_route = 1\<rparr>,
                 \<lparr>flight_id = 2,
                  departure_time = \<lparr>dt_date = \<lparr>year = 2024, month = 3, day = 1\<rparr>, dt_hour = 23, dt_minute = 59, dt_second = 59\<rparr>,
                  arrival_time = \<lparr>dt_date = \<lparr>year = 2024, month = 3, day = 2\<rparr>, dt_hour = 4, dt_minute = 0, dt_second = 0\<rparr>,
                  flight_airplane = 1, flight_route = 2\<rparr>,
                 \<lparr>flight_id = 3,
                  departure_time = \<lparr>dt_date = \<lparr>year = 2024, month = 3, day = 2\<rparr>, dt_hour = 0, dt_minute = 0, dt_second = 0\<rparr>,
                  arrival_time = \<lparr>dt_date = \<lparr>year = 2024, month = 3, day = 2\<rparr>, dt_hour = 4, dt_minute = 0, dt_second = 0\<rparr>,
                  flight_airplane = 1, flight_route = 1\<rparr>],
      tickets = [\<lparr>ticket_id = 1, ticket_row = 1, ticket_seat = 1, ticket_flight = 1, ticket_order = 1\<rparr>,
                 \<lparr>ticket_id = 2, ticket_row = 1, ticket_seat = 2, ticket_flight = 1, ticket_order = 1\<rparr>],
      orders = [\<lparr>order_id = 1, order_user = 5\<rparr>]\<rparr> = Inl ValueError"
  using departure_time_filter
    [of "''2024-03-01''" "\<lambda>x. None" A_list None
      "\<lparr>airplanes = [\<lparr>airplane_id = 1, airplane_name = ''A'', rows = 2, seats_in_row = 3, airplane_type = 1\<rparr>],
      flights = [\<lparr>flight_id = 1,
                  departure_time = \<lparr>dt_date = \<lparr>year = 2024, month = 3, day = 1\<rparr>, dt_hour = 0, dt_minute = 5, dt_second = 0\<rparr>,
                  arrival_time = \<lparr>dt_date = \<lparr>year = 2024, month = 3, day = 1\<rparr>, dt_hour = 9, dt_minute = 0, dt_second = 0\<rparr>,
                  flight_airplane = 1, flight_route = 1\<rparr>,
                 \<lparr>flight_id = 2,
                  departure_time = \<lparr>dt_date = \<lparr>year = 2024, month = 3, day = 1\<rparr>, dt_hour = 23, dt_minute = 59, dt_second = 59\<rparr>,
                  arrival_time = \<lparr>dt_date = \<lparr>year = 2024, month = 3, day = 2\<rparr>, dt_hour = 4, dt_minute = 0, dt_second = 0\<rparr>,
                  flight_airplane = 1, flight_route = 2\<rparr>,
                 \<lparr>flight_id = 3,
                  departure_time = \<lparr>dt_date = \<lparr>year = 2024, month = 3, day = 2\<rparr>, dt_hour = 0, dt_minute = 0, dt_second = 0\<rparr>,
                  arrival_time = \<lparr>dt_date = \<lparr>year = 2024, month = 3, day = 2\<rparr>, dt_hour = 4, dt_minute = 0, dt_second = 0\<rparr>,
                  flight_airplane = 1, flight_route = 1\<rparr>],
      tickets = [\<lparr>ticket_id = 1, ticket_row = 1, ticket_seat = 1, ticket_flight = 1, ticket_order = 1\<rparr>,
                 \<lparr>ticket_id = 2, ticket_row = 1, ticket_seat = 2, ticket_flight = 1, ticket_order = 1\<rparr>],
      orders = [\<lparr>order_id = 1, order_user = 5\<rparr>]\<rparr>"]
    departure_time_filter
    [of "''2024-03''" "\<lambda>x. None" A_list None
      "\<lparr>airplanes = [\<lparr>airplane_id = 1, airplane_name = ''A'', rows = 2, seats_in_row = 3, airplane_type = 1\<rparr>],
      flights = [\<lparr>flight_id = 1,
                  departure_time = \<lparr>dt_date = \<lparr>year = 2024, month = 3, day = 1\<rparr>, dt_hour = 0, dt_minute = 5, dt_second = 0\<rparr>,
                  arrival_time = \<lparr>dt_date = \<lparr>year = 2024, month = 3, day = 1\<rparr>, dt_hour = 9, dt_minute = 0, dt_second = 0\<rparr>,
                  flight_airplane = 1, flight_route = 1\<rparr>,
                 \<lparr>flight_id = 2,
                  departure_time = \<lparr>dt_date = \<lparr>year = 2024, month = 3, day = 1\<rparr>, dt_hour = 23, dt_minute = 59, dt_second = 59\<rparr>,
                  arrival_time = \<lparr>dt_date = \<lparr>year = 2024, month = 3, day = 2\<rparr>, dt_hour = 4, dt_minute = 0, dt_second = 0\<rparr>,
                  flight_airplane = 1, flight_route = 2\<rparr>,
                 \<lparr>flight_id = 3,
                  departure_time = \<lparr>dt_date = \<lparr>year = 2024, month = 3, day = 2\<rparr>, dt_hour = 0, dt_minute = 0, dt_second = 0\<rparr>,
                  arrival_time = \<lparr>dt_date = \<lparr>year = 2024, month = 3, day = 2\<rparr>, dt_hour = 4, dt_minute = 0, dt_second = 0\<rparr>,
                  flight_airplane = 1, flight_route = 1\<rparr>],
      tickets = [\<lparr>ticket_id = 1, ticket_row = 1, ticket_seat = 1, ticket_flight = 1, ticket_order = 1\<rparr>,
                 \<lparr>ticket_id = 2, ticket_row = 1, ticket_seat = 2, ticket_flight = 1, ticket_order = 1\<rparr>],
      orders = [\<lparr>order_id = 1, order_user = 5\<rparr>]\<rparr>"]
  by (simp add: strptime_simps flight_query_simps)

text \<open>
  Claim C8 as stated ("for every malformed value the request fails with a validation
  error") fails at \<^verbatim>\<open>departure_time=01-03-2024\<close>: the exception is \<^verbatim>\<open>ValueError\<close>,
  which the handler does not turn into a response, where a validation error would be
  answered with status 400.
\<close>

theorem departure_time_malformed_counterexample:
  "FlightViewSet_get_queryset (\<lambda>x. None) A_list None (Some ''01-03-2024'')
     \<lparr>airplanes = [\<lparr>airplane_id = 1, airplane_name = ''A'', rows = 2, seats_in_row = 3, airplane_type = 1\<rparr>],
      flights = [\<lparr>flight_id = 1,
                  departure_time = \<lparr>dt_date = \<lparr>year = 2024, month = 3, day = 1\<rparr>, dt_hour = 0, dt_minute = 5, dt_second = 0\<rparr>,
                  arrival_time = \<lparr>dt_date = \<lparr>year = 2024, month = 3, day = 1\<rparr>, dt_hour = 9, dt_minute = 0, dt_second = 0\<rparr>,
                  flight_airplane = 1, flight_route = 1\<rparr>,
                 \<lparr>flight_id = 2,
                  departure_time = \<lparr>dt_date = \<lparr>year = 2024, month = 3, day = 1\<rparr>, dt_hour = 23, dt_minute = 59, dt_second = 59\<rparr>,
                  arrival_time = \<lparr>dt_date = \<lparr>year = 2024, month = 3, day = 2\<rparr>, dt_hour = 4, dt_minute = 0, dt_second = 0\<rparr>,
                  flight_airplane = 1, flight_route = 2\<rparr>,
                 \<lparr>flight_id = 3,
                  departure_time = \<lparr>dt_date = \<lparr>year = 2024, month = 3, day = 2\<rparr>, dt_hour = 0, dt_minute = 0, dt_second = 0\<rparr>,
                  arrival_time = \<lparr>dt_date = \<lparr>year = 2024, month = 3, day = 2\<rparr>, dt_hour = 4, dt_minute = 0, dt_second = 0\<rparr>,
                  flight_airplane = 1, flight_route = 1\<rparr>],
      tickets = [\<lparr>ticket_id = 1, ticket_row = 1, ticket_seat = 1, ticket_flight = 1, ticket_order = 1\<rparr>,
                 \<lparr>ticket_id = 2, ticket_row = 1, ticket_seat = 2, ticket_flight = 1, ticket_order = 1\<rparr>],
      orders = [\<lparr>order_id = 1, order_user = 5\<rparr>]\<rparr> = Inl ValueError
   \<and> exception_handler ValueError = None
   \<and> exception_handler (ValidationError ''departure_time'') = Some 400"
  by (simp add: strptime_simps flight_query_simps)

subsection \<open>The annotation \<^verbatim>\<open>free_tickets_seat\<close>\<close>

lemma get_queryset_rows:
  assumes "FlightViewSet_get_queryset int_of_str act route dep s = Inr queryset"
    and "r \<in> set queryset"
  shows "\<exists>r0 \<in> set (FlightViewSet_queryset s).
           r = (if act \<in> {A_list, A_retrieve} then annotate_free_tickets_seat s r0 else r0)"
  using assms
  by (auto simp: FlightViewSet_get_queryset_def filter_route_def filter_departure_time_def
      split: sum.splits option.splits if_splits)

text \<open>
  Claim C2. Every row of the flight queryset is a flight of the store joined with its
  airplane. When the action is \<^verbatim>\<open>list\<close> or \<^verbatim>\<open>retrieve\<close> the row carries
  \<^verbatim>\<open>free_tickets_seat\<close>, equal to the airplane's \<open>rows * seats_in_row\<close> minus the
  number of tickets of the same store sold on the flight; for every other action the
  row carries no annotation. (\<^verbatim>\<open>retrieve\<close> answers with a row of this queryset,
  \<^verbatim>\<open>list\<close> with a page of it.)
\<close>

theorem free_tickets_seat_annotation:
  assumes "FlightViewSet_get_queryset int_of_str act route dep s = Inr queryset"
    and "r \<in> set queryset"
  shows "row_flight r \<in> set (flights s) \<and> row_airplane r \<in> set (airplanes s)
       \<and> airplane_id (row_airplane r) = flight_airplane (row_flight r)
       \<and> free_tickets_seat r =
           (if act = A_list \<or> act = A_retrieve
            then Some (rows (row_airplane r) * seats_in_row (row_airplane r)
                       - int (length (filter (\<lambda>t. ticket_flight t = flight_id (row_flight r)) (tickets s))))
            else None)"
proof -
  obtain r0 where r0: "r0 \<in> set (FlightViewSet_queryset s)"
    and r: "r = (if act \<in> {A_list, A_retrieve} then annotate_free_tickets_seat s r0 else r0)"
    using get_queryset_rows[OF assms] by blast
  have base: "row_flight r0 \<in> set (flights s) \<and> row_airplane r0 \<in> set (airplanes s)
       \<and> airplane_id (row_airplane r0) = flight_airplane (row_flight r0)
       \<and> free_tickets_seat r0 = None"
    using r0 by (auto simp: FlightViewSet_queryset_def)
  show ?thesis
    using base r by (auto simp: annotate_free_tickets_seat_def count_tickets_def)
qed

text \<open>
  An airplane of 2 rows of 3 seats flies three flights; two tickets are sold on
  flight 1. The list shows 4, 6 and 6 free seats; \<^verbatim>\<open>update\<close> sees no annotation.
\<close>

theorem free_tickets_seat_annotation_witness:
  "(case FlightViewSet_get_queryset (\<lambda>x. None) A_list None None
     \<lparr>airplanes = [\<lparr>airplane_id = 1, airplane_name = ''A'', rows = 2, seats_in_row = 3, airplane_type = 1\<rparr>],
      flights = [\<lparr>flight_id = 1,
                  departure_time = \<lparr>dt_date = \<lparr>year = 2024, month = 3, day = 1\<rparr>, dt_hour = 0, dt_minute = 5, dt_second = 0\<rparr>,
                  arrival_time = \<lparr>dt_date = \<lparr>year = 2024, month = 3, day = 1\<rparr>, dt_hour = 9, dt_minute = 0, dt_second = 0\<rparr>,
                  flight_airplane = 1, flight_route = 1\<rparr>,
                 \<lparr>flight_id = 2,
                  departure_time = \<lparr>dt_date = \<lparr>year = 2024, month = 3, day = 1\<rparr>, dt_hour = 23, dt_minute = 59, dt_second = 59\<rparr>,
                  arrival_time = \<lparr>dt_date = \<lparr>year = 2024, month = 3, day = 2\<rparr>, dt_hour = 4, dt_minute = 0, dt_second = 0\<rparr>,
                  flight_airplane = 1, flight_route = 2\<rparr>,
                 \<lparr>flight_id = 3,
                  departure_time = \<lparr>dt_date = \<lparr>year = 2024, month = 3, day = 2\<rparr>, dt_hour = 0, dt_minute = 0, dt_second = 0\<rparr>,
                  arrival_time = \<lparr>dt_date = \<lparr>year = 2024, month = 3, day = 2\<rparr>, dt_hour = 4, dt_minute = 0, dt_second = 0\<rparr>,
                  flight_airplane = 1, flight_route = 1\<rparr>],
      tickets = [\<lparr>ticket_id = 1, ticket_row = 1, ticket_seat = 1, ticket_flight = 1, ticket_order = 1\<rparr>,
                 \<lparr>ticket_id = 2, ticket_row = 1, ticket_seat = 2, ticket_flight = 1, ticket_order = 1\<rparr>],
      orders = [\<lparr>order_id = 1, order_user = 5\<rparr>]\<rparr> of
        Inl e \<Rightarrow> []
      | Inr queryset \<Rightarrow> map (\<lambda>r. (flight_id (row_flight r), free_tickets_seat r)) queryset)
     = [(1, Some 4), (2, Some 6), (3, Some 6)]
   \<and> (case FlightViewSet_get_queryset (\<lambda>x. None) A_update None None
     \<lparr>airplanes = [\<lparr>airplane_id = 1, airplane_name = ''A'', rows = 2, seats_in_row = 3, airplane_type = 1\<rparr>],
      flights = [\<lparr>flight_id = 1,
                  departure_time = \<lparr>dt_date = \<lparr>year = 2024, month = 3, day = 1\<rparr>, dt_hour = 0, dt_minute = 5, dt_second = 0\<rparr>,
                  arrival_time = \<lparr>dt_date = \<lparr>year = 2024, month = 3, day = 1\<rparr>, dt_hour = 9, dt_minute = 0, dt_second = 0\<rparr>,
                  flight_airplane = 1, flight_route = 1\<rparr>,
                 \<lparr>flight_id = 2,
                  departure_time = \<lparr>dt_date = \<lparr>year = 2024, month = 3, day = 1\<rparr>, dt_hour = 23, dt_minute = 59, dt_second = 59\<rparr>,
                  arrival_time = \<lparr>dt_date = \<lparr>year = 2024, month = 3, day = 2\<rparr>, dt_hour = 4, dt_minute = 0, dt_second = 0\<rparr>,
                  flight_airplane = 1, flight_route = 2\<rparr>,
                 \<lparr>flight_id = 3,
                  departure_time = \<lparr>dt_date = \<lparr>year = 2024, month = 3, day = 2\<rparr>, dt_hour = 0, dt_minute = 0, dt_second = 0\<rparr>,
                  arrival_time = \<lparr>dt_date = \<lparr>year = 2024, month = 3, day = 2\<rparr>, dt_hour = 4, dt_minute = 0, dt_second = 0\<rparr>,
                  flight_airplane = 1, flight_route = 1\<rparr>],
      tickets = [\<lparr>ticket_id = 1, ticket_row = 1, ticket_seat = 1, ticket_flight = 1, ticket_order = 1\<rparr>,
                 \<lparr>ticket_id = 2, ticket_row = 1, ticket_seat = 2, ticket_flight = 1, ticket_order = 1\<rparr>],
      orders = [\<lparr>order_id = 1, order_user = 5\<rparr>]\<rparr> of
        Inl e \<Rightarrow> []
      | Inr queryset \<Rightarrow> map (\<lambda>r. (flight_id (row_flight r), free_tickets_seat r)) queryset)
     = [(1, None), (2, None), (3, None)]"
  using free_tickets_seat_annotation
    [of "\<lambda>x. None" A_list None None
      "\<lparr>airplanes = [\<lparr>airplane_id = 1, airplane_name = ''A'', rows = 2, seats_in_row = 3, airplane_type = 1\<rparr>],
      flights = [\<lparr>flight_id = 1,
                  departure_time = \<lparr>dt_date = \<lparr>year = 2024, month = 3, day = 1\<rparr>, dt_hour = 0, dt_minute = 5, dt_second = 0\<rparr>,
                  arrival_time = \<lparr>dt_date = \<lparr>year = 2024, month = 3, day = 1\<rparr>, dt_hour = 9, dt_minute = 0, dt_second = 0\<rparr>,
                  flight_airplane = 1, flight_route = 1\<rparr>,
                 \<lparr>flight_id = 2,
                  departure_time = \<lparr>dt_date = \<lparr>year = 2024, month = 3, day = 1\<rparr>, dt_hour = 23, dt_minute = 59, dt_second = 59\<rparr>,
                  arrival_time = \<lparr>dt_date = \<lparr>year = 2024, month = 3, day = 2\<rparr>, dt_hour = 4, dt_minute = 0, dt_second = 0\<rparr>,
                  flight_airplane = 1, flight_route = 2\<rparr>,
                 \<lparr>flight_id = 3,
                  departure_time = \<lparr>dt_date = \<lparr>year = 2024, month = 3, day = 2\<rparr>, dt_hour = 0, dt_minute = 0, dt_second = 0\<rparr>,
                  arrival_time = \<lparr>dt_date = \<lparr>year = 2024, month = 3, day = 2\<rparr>, dt_hour = 4, dt_minute = 0, dt_second = 0\<rparr>,
                  flight_airplane = 1, flight_route = 1\<rparr>],
      tickets = [\<lparr>ticket_id = 1, ticket_row = 1, ticket_seat = 1, ticket_flight = 1, ticket_order = 1\<rparr>,
                 \<lparr>ticket_id = 2, ticket_row = 1, ticket_seat = 2, ticket_flight = 1, ticket_order = 1\<rparr>],
      orders = [\<lparr>order_id = 1, order_user = 5\<rparr>]\<rparr>"]
  by (simp add: flight_query_simps)

section \<open>Properties of orders\<close>

subsection \<open>Atomic creation\<close>

text \<open>
  Inserting a ticket changes neither the flights nor the airplanes nor the orders; it
  takes the ticket's place and no other.
\<close>

lemma insert_ticket_fields [simp]:
  "orders (insert_ticket ord d s) = orders s"
  "flights (insert_ticket ord d s) = flights s"
  "airplanes (insert_ticket ord d s) = airplanes s"
  by (simp_all add: insert_ticket_def)

lemma airplane_of_flight_insert_ticket [simp]:
  "airplane_of_flight (insert_ticket ord d s) pk = airplane_of_flight s pk"
  by (simp add: airplane_of_flight_def cong: if_cong)

lemma airplane_of_flight_orders [simp]:
  "airplane_of_flight (s\<lparr>orders := os\<rparr>) pk = airplane_of_flight s pk"
  by (simp add: airplane_of_flight_def cong: if_cong)

lemma slot_taken_iff: "slot_taken s d = (slot d \<in> set (map ticket_slot (tickets s)))"
  by (force simp: slot_taken_def list_ex_iff slot_def ticket_slot_def)

lemma slot_taken_insert_ticket:
  "slot_taken (insert_ticket ord d s) d' = (slot_taken s d' \<or> slot d' = slot d)"
  by (auto simp: slot_taken_iff insert_ticket_def ticket_slot_def slot_def)

lemma slot_taken_orders [simp]: "slot_taken (s\<lparr>orders := os\<rparr>) d = slot_taken s d"
  by (simp add: slot_taken_def)

lemma ticket_ok_insert_ticket:
  "ticket_ok (insert_ticket ord d s) d' = (ticket_ok s d' \<and> slot d' \<noteq> slot d)"
  by (auto simp: ticket_ok_def slot_taken_insert_ticket split: list.splits)

lemma ticket_ok_orders [simp]: "ticket_ok (s\<lparr>orders := os\<rparr>) d = ticket_ok s d"
  by (simp add: ticket_ok_def cong: list.case_cong)

lemma all_valid_orders [simp]: "all_valid (s\<lparr>orders := os\<rparr>) ds = all_valid s ds"
  by (simp add: all_valid_def list_all_iff)

lemma all_valid_Cons:
  "all_valid s (d # ds) = (ticket_ok s d \<and> all_valid (insert_ticket ord d s) ds)"
  by (auto simp: all_valid_def list_all_iff ticket_ok_insert_ticket image_iff)

lemma validate_ticket_None: "(validate_ticket s d = None) = ticket_ok s d"
  by (auto simp: validate_ticket_def ticket_ok_def split: list.splits)

lemma validate_ticket_Some: "validate_ticket s d = Some e \<Longrightarrow> \<exists>field. e = ValidationError field"
  by (auto simp: validate_ticket_def split: list.splits if_splits)

lemma create_tickets_invalid:
  "\<not> all_valid s ds \<Longrightarrow> \<exists>field. create_tickets ord ds s = Inl (ValidationError field)"
proof (induction ds arbitrary: s)
  case Nil
  then show ?case by (simp add: all_valid_def)
next
  case (Cons d ds)
  show ?case
  proof (cases "validate_ticket s d")
    case None
    then have "ticket_ok s d" by (simp add: validate_ticket_None)
    with Cons.prems have "\<not> all_valid (insert_ticket ord d s) ds"
      by (simp add: all_valid_Cons[of s d ds ord])
    from Cons.IH[OF this] None show ?thesis by simp
  next
    case (Some e)
    then show ?thesis using validate_ticket_Some[OF Some] by auto
  qed
qed

lemma create_tickets_valid:
  "all_valid s ds \<Longrightarrow>
   \<exists>new. create_tickets ord ds s = Inr (s\<lparr>tickets := tickets s @ new\<rparr>)
        \<and> map ticket_slot new = map slot ds
        \<and> (\<forall>t\<in>set new. ticket_order t = order_id ord)"
proof (induction ds arbitrary: s)
  case Nil
  then show ?case by simp
next
  case (Cons d ds)
  let ?t = "\<lparr>ticket_id = next_id (map ticket_id (tickets s)), ticket_row = data_row d,
             ticket_seat = data_seat d, ticket_flight = data_flight d,
             ticket_order = order_id ord\<rparr>"
  let ?s1 = "insert_ticket ord d s"
  from Cons.prems have ok: "ticket_ok s d" and rest: "all_valid ?s1 ds"
    by (simp_all add: all_valid_Cons[of s d ds ord])
  from Cons.IH[OF rest] obtain new where
    run: "create_tickets ord ds ?s1 = Inr (?s1\<lparr>tickets := tickets ?s1 @ new\<rparr>)"
    and slots: "map ticket_slot new = map slot ds"
    and own: "\<forall>t\<in>set new. ticket_order t = order_id ord"
    by blast
  have s1: "?s1\<lparr>tickets := tickets ?s1 @ new\<rparr> = s\<lparr>tickets := tickets s @ (?t # new)\<rparr>"
    by (simp add: insert_ticket_def)
  have "create_tickets ord (d # ds) s = Inr (s\<lparr>tickets := tickets s @ (?t # new)\<rparr>)"
  proof -
    have "validate_ticket s d = None" using ok by (simp add: validate_ticket_None)
    then show ?thesis using run s1 by simp
  qed
  moreover have "map ticket_slot (?t # new) = map slot (d # ds)"
    using slots by (simp add: ticket_slot_def slot_def)
  moreover have "\<forall>t\<in>set (?t # new). ticket_order t = order_id ord"
    using own by simp
  ultimately show ?case by blast
qed

lemma authenticated_passes_order_gate:
  "OrderViewSet_create (Some u) d s =
     (case OrderViewSet_perform_create u d s of
        (Inl e, s'') \<Rightarrow> (Inl e, s'')
      | (Inr ord, s'') \<Rightarrow> (Inr (201, ord), s''))"
  by (simp add: OrderViewSet_create_def dispatch_def check_permissions_def IsAuthenticated_def)

lemma perform_create_eq:
  "OrderViewSet_perform_create u d s = OrderSerializer_create (user_id u) (data_tickets d) s"
  by (simp add: OrderViewSet_perform_create_def serializer_save_user_def)

text \<open>
  Claim C1. Order creation is atomic. When the ticket list of a request holds a
  specification that is not acceptable (unknown flight, row or seat outside the
  airplane, a place already sold, or a place the request names twice), the request
  raises a validation error on a field and the store afterwards is the store before:
  no new order, no new ticket. When every specification is acceptable, the request
  answers 201 and the store gains exactly the order, owned by the caller, and one
  ticket of that order per specification, in the request's order.
\<close>

theorem order_creation_atomic:
  "(\<not> all_valid s (data_tickets d) \<longrightarrow>
      (\<exists>field. OrderViewSet_create (Some u) d s = (Inl (ValidationError field), s)))
   \<and> (all_valid s (data_tickets d) \<longrightarrow>
      (\<exists>ord new. OrderViewSet_create (Some u) d s
                    = (Inr (201, ord), s\<lparr>orders := orders s @ [ord], tickets := tickets s @ new\<rparr>)
                \<and> order_user ord = user_id u
                \<and> map ticket_slot new = map slot (data_tickets d)
                \<and> (\<forall>t\<in>set new. ticket_order t = order_id ord)))"
proof (intro conjI impI)
  let ?ord = "\<lparr>order_id = next_id (map order_id (orders s)), order_user = user_id u\<rparr>"
  let ?s0 = "s\<lparr>orders := orders s @ [?ord]\<rparr>"
  {
    assume "\<not> all_valid s (data_tickets d)"
    then have "\<not> all_valid ?s0 (data_tickets d)" by simp
    from create_tickets_invalid[OF this, of ?ord]
    show "\<exists>field. OrderViewSet_create (Some u) d s = (Inl (ValidationError field), s)"
      by (auto simp: authenticated_passes_order_gate perform_create_eq OrderSerializer_create_def Let_def)
  next
    assume "all_valid s (data_tickets d)"
    then have "all_valid ?s0 (data_tickets d)" by simp
    from create_tickets_valid[OF this, of ?ord] obtain new where
      run: "create_tickets ?ord (data_tickets d) ?s0 = Inr (?s0\<lparr>tickets := tickets ?s0 @ new\<rparr>)"
      and slots: "map ticket_slot new = map slot (data_tickets d)"
      and own: "\<forall>t\<in>set new. ticket_order t = order_id ?ord"
      by blast
    have "OrderViewSet_create (Some u) d s
            = (Inr (201, ?ord), s\<lparr>orders := orders s @ [?ord], tickets := tickets s @ new\<rparr>)"
      using run
      by (simp add: authenticated_passes_order_gate perform_create_eq OrderSerializer_create_def Let_def)
    with slots own
    show "\<exists>ord new. OrderViewSet_create (Some u) d s
                    = (Inr (201, ord), s\<lparr>orders := orders s @ [ord], tickets := tickets s @ new\<rparr>)
                \<and> order_user ord = user_id u
                \<and> map ticket_slot new = map slot (data_tickets d)
                \<and> (\<forall>t\<in>set new. ticket_order t = order_id ord)"
      by (intro exI[of _ ?ord] exI[of _ new]) simp
  }
qed


text \<open>The unfoldings that evaluate an order request on a concrete store.\<close>

lemmas order_simps =
  OrderViewSet_create_def dispatch_def check_permissions_def IsAuthenticated_def
  OrderViewSet_perform_create_def serializer_save_user_def OrderSerializer_create_def
  validate_ticket_def airplane_of_flight_def slot_taken_def insert_ticket_def next_id_def
  all_valid_def ticket_ok_def slot_def Let_def

text \<open>
  The spec's scenario: flight 5 flies an airplane of 2 rows of 3 seats. A request for
  the place (1, 1) twice raises a validation error and leaves the store as it was; a
  request for (1, 1) and (1, 2) creates order 3 with its two tickets.
\<close>

theorem order_creation_atomic_witness:
  "OrderViewSet_create (Some \<lparr>user_id = 5, is_staff = False\<rparr>)
     \<lparr>data_user = None,
      data_tickets = [\<lparr>data_row = 1, data_seat = 1, data_flight = 5\<rparr>,
                      \<lparr>data_row = 1, data_seat = 1, data_flight = 5\<rparr>]\<rparr>
     \<lparr>airplanes = [\<lparr>airplane_id = 1, airplane_name = ''A'', rows = 2, seats_in_row = 3, airplane_type = 1\<rparr>],
      flights = [\<lparr>flight_id = 5,
                  departure_time = \<lparr>dt_date = \<lparr>year = 2024, month = 3, day = 1\<rparr>, dt_hour = 8, dt_minute = 0, dt_second = 0\<rparr>,
                  arrival_time = \<lparr>dt_date = \<lparr>year = 2024, month = 3, day = 1\<rparr>, dt_hour = 9, dt_minute = 0, dt_second = 0\<rparr>,
                  flight_airplane = 1, flight_route = 1\<rparr>],
      tickets = [\<lparr>ticket_id = 1, ticket_row = 2, ticket_seat = 3, ticket_flight = 5, ticket_order = 1\<rparr>],
      orders = [\<lparr>order_id = 1, order_user = 5\<rparr>, \<lparr>order_id = 2, order_user = 6\<rparr>]\<rparr>
   = (Inl (ValidationError ''non_field_errors''),
     \<lparr>airplanes = [\<lparr>airplane_id = 1, airplane_name = ''A'', rows = 2, seats_in_row = 3, airplane_type = 1\<rparr>],
      flights = [\<lparr>flight_id = 5,
                  departure_time = \<lparr>dt_date = \<lparr>year = 2024, month = 3, day = 1\<rparr>, dt_hour = 8, dt_minute = 0, dt_second = 0\<rparr>,
                  arrival_time = \<lparr>dt_date = \<lparr>year = 2024, month = 3, day = 1\<rparr>, dt_hour = 9, dt_minute = 0, dt_second = 0\<rparr>,
                  flight_airplane = 1, flight_route = 1\<rparr>],
      tickets = [\<lparr>ticket_id = 1, ticket_row = 2, ticket_seat = 3, ticket_flight = 5, ticket_order = 1\<rparr>],
      orders = [\<lparr>order_id = 1, order_user = 5\<rparr>, \<lparr>order_id = 2, order_user = 6\<rparr>]\<rparr>)
   \<and> OrderViewSet_create (Some \<lparr>user_id = 5, is_staff = False\<rparr>)
     \<lparr>data_user = None,
      data_tickets = [\<lparr>data_row = 1, data_seat = 1, data_flight = 5\<rparr>,
                      \<lparr>data_row = 1, data_seat = 2, data_flight = 5\<rparr>]\<rparr>
     \<lparr>airplanes = [\<lparr>airplane_id = 1, airplane_name = ''A'', rows = 2, seats_in_row = 3, airplane_type = 1\<rparr>],
      flights = [\<lparr>flight_id = 5,
                  departure_time = \<lparr>dt_date = \<lparr>year = 2024, month = 3, day = 1\<rparr>, dt_hour = 8, dt_minute = 0, dt_second = 0\<rparr>,
                  arrival_time = \<lparr>dt_date = \<lparr>year = 2024, month = 3, day = 1\<rparr>, dt_hour = 9, dt_minute = 0, dt_second = 0\<rparr>,
                  flight_airplane = 1, flight_route = 1\<rparr>],
      tickets = [\<lparr>ticket_id = 1, ticket_row = 2, ticket_seat = 3, ticket_flight = 5, ticket_order = 1\<rparr>],
      orders = [\<lparr>order_id = 1, order_user = 5\<rparr>, \<lparr>order_id = 2, order_user = 6\<rparr>]\<rparr>
   = (Inr (201, \<lparr>order_id = 3, order_user = 5\<rparr>),
     \<lparr>airplanes = [\<lparr>airplane_id = 1, airplane_name = ''A'', rows = 2, seats_in_row = 3, airplane_type = 1\<rparr>],
      flights = [\<lparr>flight_id = 5,
                  departure_time = \<lparr>dt_date = \<lparr>year = 2024, month = 3, day = 1\<rparr>, dt_hour = 8, dt_minute = 0, dt_second = 0\<rparr>,
                  arrival_time = \<lparr>dt_date = \<lparr>year = 2024, month = 3, day = 1\<rparr>, dt_hour = 9, dt_minute = 0, dt_second = 0\<rparr>,
                  flight_airplane = 1, flight_route = 1\<rparr>],
      tickets = [\<lparr>ticket_id = 1, ticket_row = 2, ticket_seat = 3, ticket_flight = 5, ticket_order = 1\<rparr>,
                 \<lparr>ticket_id = 2, ticket_row = 1, ticket_seat = 1, ticket_flight = 5, ticket_order = 3\<rparr>,
                 \<lparr>ticket_id = 3, ticket_row = 1, ticket_seat = 2, ticket_flight = 5, ticket_order = 3\<rparr>],
      orders = [\<lparr>order_id = 1, order_user = 5\<rparr>, \<lparr>order_id = 2, order_user = 6\<rparr>,
                \<lparr>order_id = 3, order_user = 5\<rparr>]\<rparr>)"
  using order_creation_atomic
    [of "\<lparr>airplanes = [\<lparr>airplane_id = 1, airplane_name = ''A'', rows = 2, seats_in_row = 3, airplane_type = 1\<rparr>],
      flights = [\<lparr>flight_id = 5,
                  departure_time = \<lparr>dt_date = \<lparr>year = 2024, month = 3, day = 1\<rparr>, dt_hour = 8, dt_minute = 0, dt_second = 0\<rparr>,
                  arrival_time = \<lparr>dt_date = \<lparr>year = 2024, month = 3, day = 1\<rparr>, dt_hour = 9, dt_minute = 0, dt_second = 0\<rparr>,
                  flight_airplane = 1, flight_route = 1\<rparr>],
      tickets = [\<lparr>ticket_id = 1, ticket_row = 2, ticket_seat = 3, ticket_flight = 5, ticket_order = 1\<rparr>],
      orders = [\<lparr>order_id = 1, order_user = 5\<rparr>, \<lparr>order_id = 2, order_user = 6\<rparr>]\<rparr>"
        "\<lparr>data_user = None,
          data_tickets = [\<lparr>data_row = 1, data_seat = 1, data_flight = 5\<rparr>,
                          \<lparr>data_row = 1, data_seat = 1, data_flight = 5\<rparr>]\<rparr>"
        "\<lparr>user_id = 5, is_staff = False\<rparr>"]
    order_creation_atomic
    [of "\<lparr>airplanes = [\<lparr>airplane_id = 1, airplane_name = ''A'', rows = 2, seats_in_row = 3, airplane_type = 1\<rparr>],
      flights = [\<lparr>flight_id = 5,
                  departure_time = \<lparr>dt_date = \<lparr>year = 2024, month = 3, day = 1\<rparr>, dt_hour = 8, dt_minute = 0, dt_second = 0\<rparr>,
                  arrival_time = \<lparr>dt_date = \<lparr>year = 2024, month = 3, day = 1\<rparr>, dt_hour = 9, dt_minute = 0, dt_second = 0\<rparr>,
                  flight_airplane = 1, flight_route = 1\<rparr>],
      tickets = [\<lparr>ticket_id = 1, ticket_row = 2, ticket_seat = 3, ticket_flight = 5, ticket_order = 1\<rparr>],
      orders = [\<lparr>order_id = 1, order_user = 5\<rparr>, \<lparr>order_id = 2, order_user = 6\<rparr>]\<rparr>"
        "\<lparr>data_user = None,
          data_tickets = [\<lparr>data_row = 1, data_seat = 1, data_flight = 5\<rparr>,
                          \<lparr>data_row = 1, data_seat = 2, data_flight = 5\<rparr>]\<rparr>"
        "\<lparr>user_id = 5, is_staff = False\<rparr>"]
  by (simp add: order_simps)

subsection \<open>Ownership\<close>

lemma create_tickets_orders:
  "create_tickets ord ds s = Inr s' \<Longrightarrow> orders s' = orders s"
  by (induction ds arbitrary: s) (auto split: option.splits)

lemma find_Some_holds: "find P xs = Some x \<Longrightarrow> P x \<and> x \<in> set xs"
  by (induction xs) (auto split: if_splits)

text \<open>
  Claim C3. Ownership isolation on orders. For every authenticated user \<open>u\<close> and every
  store: the queryset of \<open>u\<close> holds only orders whose user is \<open>u\<close> (it is exactly the
  orders of \<open>u\<close>); \<^verbatim>\<open>retrieve\<close> by \<open>u\<close> answers only with an order of \<open>u\<close>; and an
  order that \<open>u\<close> creates is persisted with user \<open>u\<close>, whatever the request body holds.
\<close>

theorem order_ownership_isolation:
  "(\<forall>ord\<in>set (OrderViewSet_get_queryset u s). order_user ord = user_id u)
   \<and> set (OrderViewSet_get_queryset u s) = {ord \<in> set (orders s). order_user ord = user_id u}
   \<and> (\<forall>pk ord. OrderViewSet_retrieve u pk s = Inr ord \<longrightarrow>
         order_user ord = user_id u \<and> ord \<in> set (orders s))
   \<and> (\<forall>d st ord s'. OrderViewSet_create (Some u) d s = (Inr (st, ord), s') \<longrightarrow>
         order_user ord = user_id u \<and> orders s' = orders s @ [ord])"
proof -
  have q: "set (OrderViewSet_get_queryset u s) = {ord \<in> set (orders s). order_user ord = user_id u}"
    by (auto simp: OrderViewSet_get_queryset_def)
  have r: "\<forall>pk ord. OrderViewSet_retrieve u pk s = Inr ord \<longrightarrow>
         order_user ord = user_id u \<and> ord \<in> set (orders s)"
  proof (intro allI impI)
    fix pk ord
    assume "OrderViewSet_retrieve u pk s = Inr ord"
    then have "find (\<lambda>ord. order_id ord = pk) (OrderViewSet_get_queryset u s) = Some ord"
      by (simp add: OrderViewSet_retrieve_def split: option.splits)
    then have "ord \<in> set (OrderViewSet_get_queryset u s)"
      using find_Some_holds by fastforce
    then show "order_user ord = user_id u \<and> ord \<in> set (orders s)"
      using q by simp
  qed
  have c: "\<forall>d st ord s'. OrderViewSet_create (Some u) d s = (Inr (st, ord), s') \<longrightarrow>
         order_user ord = user_id u \<and> orders s' = orders s @ [ord]"
    using create_tickets_orders
    by (fastforce simp: authenticated_passes_order_gate perform_create_eq OrderSerializer_create_def
        Let_def split: sum.splits)
  from q r c show ?thesis by simp
qed

text \<open>
  User 5 sees order 1 and not order 2 of user 6, whose key answers \<^verbatim>\<open>Http404\<close>; a
  body that names user 6 still creates an order of user 5.
\<close>

theorem order_ownership_isolation_witness:
  "OrderViewSet_get_queryset \<lparr>user_id = 5, is_staff = False\<rparr>
     \<lparr>airplanes = [\<lparr>airplane_id = 1, airplane_name = ''A'', rows = 2, seats_in_row = 3, airplane_type = 1\<rparr>],
      flights = [\<lparr>flight_id = 5,
                  departure_time = \<lparr>dt_date = \<lparr>year = 2024, month = 3, day = 1\<rparr>, dt_hour = 8, dt_minute = 0, dt_second = 0\<rparr>,
                  arrival_time = \<lparr>dt_date = \<lparr>year = 2024, month = 3, day = 1\<rparr>, dt_hour = 9, dt_minute = 0, dt_second = 0\<rparr>,
                  flight_airplane = 1, flight_route = 1\<rparr>],
      tickets = [\<lparr>ticket_id = 1, ticket_row = 2, ticket_seat = 3, ticket_flight = 5, ticket_order = 1\<rparr>],
      orders = [\<lparr>order_id = 1, order_user = 5\<rparr>, \<lparr>order_id = 2, order_user = 6\<rparr>]\<rparr>
   = [\<lparr>order_id = 1, order_user = 5\<rparr>]
   \<and> OrderViewSet_retrieve \<lparr>user_id = 5, is_staff = False\<rparr> 2
     \<lparr>airplanes = [\<lparr>airplane_id = 1, airplane_name = ''A'', rows = 2, seats_in_row = 3, airplane_type = 1\<rparr>],
      flights = [\<lparr>flight_id = 5,
                  departure_time = \<lparr>dt_date = \<lparr>year = 2024, month = 3, day = 1\<rparr>, dt_hour = 8, dt_minute = 0, dt_second = 0\<rparr>,
                  arrival_time = \<lparr>dt_date = \<lparr>year = 2024, month = 3, day = 1\<rparr>, dt_hour = 9, dt_minute = 0, dt_second = 0\<rparr>,
                  flight_airplane = 1, flight_route = 1\<rparr>],
      tickets = [\<lparr>ticket_id = 1, ticket_row = 2, ticket_seat = 3, ticket_flight = 5, ticket_order = 1\<rparr>],
      orders = [\<lparr>order_id = 1, order_user = 5\<rparr>, \<lparr>order_id = 2, order_user = 6\<rparr>]\<rparr>
   = Inl Http404
   \<and> OrderViewSet_create (Some \<lparr>user_id = 5, is_staff = False\<rparr>)
     \<lparr>data_user = Some 6,
      data_tickets = [\<lparr>data_row = 1, data_seat = 1, data_flight = 5\<rparr>,
                      \<lparr>data_row = 1, data_seat = 2, data_flight = 5\<rparr>]\<rparr>
     \<lparr>airplanes = [\<lparr>airplane_id = 1, airplane_name = ''A'', rows = 2, seats_in_row = 3, airplane_type = 1\<rparr>],
      flights = [\<lparr>flight_id = 5,
                  departure_time = \<lparr>dt_date = \<lparr>year = 2024, month = 3, day = 1\<rparr>, dt_hour = 8, dt_minute = 0, dt_second = 0\<rparr>,
                  arrival_time = \<lparr>dt_date = \<lparr>year = 2024, month = 3, day = 1\<rparr>, dt_hour = 9, dt_minute = 0, dt_second = 0\<rparr>,
                  flight_airplane = 1, flight_route = 1\<rparr>],
      tickets = [\<lparr>ticket_id = 1, ticket_row = 2, ticket_seat = 3, ticket_flight = 5, ticket_order = 1\<rparr>],
      orders = [\<lparr>order_id = 1, order_user = 5\<rparr>, \<lparr>order_id = 2, order_user = 6\<rparr>]\<rparr>
   = (Inr (201, \<lparr>order_id = 3, order_user = 5\<rparr>),
     \<lparr>airplanes = [\<lparr>airplane_id = 1, airplane_name = ''A'', rows = 2, seats_in_row = 3, airplane_type = 1\<rparr>],
      flights = [\<lparr>flight_id = 5,
                  departure_time = \<lparr>dt_date = \<lparr>year = 2024, month = 3, day = 1\<rparr>, dt_hour = 8, dt_minute = 0, dt_second = 0\<rparr>,
                  arrival_time = \<lparr>dt_date = \<lparr>year = 2024, month = 3, day = 1\<rparr>, dt_hour = 9, dt_minute = 0, dt_second = 0\<rparr>,
                  flight_airplane = 1, flight_route = 1\<rparr>],
      tickets = [\<lparr>ticket_id = 1, ticket_row = 2, ticket_seat = 3, ticket_flight = 5, ticket_order = 1\<rparr>,
                 \<lparr>ticket_id = 2, ticket_row = 1, ticket_seat = 1, ticket_flight = 5, ticket_order = 3\<rparr>,
                 \<lparr>ticket_id = 3, ticket_row = 1, ticket_seat = 2, ticket_flight = 5, ticket_order = 3\<rparr>],
      orders = [\<lparr>order_id = 1, order_user = 5\<rparr>, \<lparr>order_id = 2, order_user = 6\<rparr>,
                \<lparr>order_id = 3, order_user = 5\<rparr>]\<rparr>)"
  using order_ownership_isolation
    [of "\<lparr>user_id = 5, is_staff = False\<rparr>"
        "\<lparr>airplanes = [\<lparr>airplane_id = 1, airplane_name = ''A'', rows = 2, seats_in_row = 3, airplane_type = 1\<rparr>],
      flights = [\<lparr>flight_id = 5,
                  departure_time = \<lparr>dt_date = \<lparr>year = 2024, month = 3, day = 1\<rparr>, dt_hour = 8, dt_minute = 0, dt_second = 0\<rparr>,
                  arrival_time = \<lparr>dt_date = \<lparr>year = 2024, month = 3, day = 1\<rparr>, dt_hour = 9, dt_minute = 0, dt_second = 0\<rparr>,
                  flight_airplane = 1, flight_route = 1\<rparr>],
      tickets = [\<lparr>ticket_id = 1, ticket_row = 2, ticket_seat = 3, ticket_flight = 5, ticket_order = 1\<rparr>],
      orders = [\<lparr>order_id = 1, order_user = 5\<rparr>, \<lparr>order_id = 2, order_user = 6\<rparr>]\<rparr>"]
  by (simp add: order_simps OrderViewSet_get_queryset_def OrderViewSet_retrieve_def)

section \<open>Properties of the permission classes\<close>

text \<open>
  Claim C5, as amended. For AirplaneType, Country and City every standard action runs
  its handler only for a staff principal; the anonymous caller is refused with
  \<^verbatim>\<open>NotAuthenticated\<close> and a user who is not staff with \<^verbatim>\<open>PermissionDenied\<close>, the
  store unchanged. For Crew the same holds of \<^verbatim>\<open>create\<close>, \<^verbatim>\<open>update\<close>,
  \<^verbatim>\<open>partial_update\<close> and \<^verbatim>\<open>destroy\<close>, and of every action by the anonymous
  caller; \<^verbatim>\<open>list\<close> and \<^verbatim>\<open>retrieve\<close> run for every authenticated user.
\<close>

theorem admin_only_resources:
  "(v \<in> {AirplaneTypeViewSet, CountryViewSet, CityViewSet} \<longrightarrow>
      dispatch v p (method_of act) h s =
        (case p of
           None \<Rightarrow> (Inl NotAuthenticated, s)
         | Some u \<Rightarrow> if is_staff u then h s else (Inl PermissionDenied, s)))
   \<and> dispatch CrewViewSet p (method_of act) h s =
        (case p of
           None \<Rightarrow> (Inl NotAuthenticated, s)
         | Some u \<Rightarrow>
             if is_staff u \<or> act = A_list \<or> act = A_retrieve then h s
             else (Inl PermissionDenied, s))"
  by (cases act; cases p)
     (auto simp: dispatch_def check_permissions_def IsAdminUser_def permission_denied_def
       IsAdminOrIfAuthenticatedReadOnly_def SAFE_METHODS_def)

text \<open>
  A user who is not staff is refused the list of countries and the deletion of a crew
  member, with the store unchanged; a staff user lists the countries.
\<close>

theorem admin_only_resources_witness:
  "dispatch CountryViewSet (Some \<lparr>user_id = 2, is_staff = False\<rparr>) (method_of A_list)
     (\<lambda>s. (Inr (200 :: nat), s)) (0 :: nat) = (Inl PermissionDenied, 0)
   \<and> dispatch CountryViewSet (Some \<lparr>user_id = 1, is_staff = True\<rparr>) (method_of A_list)
     (\<lambda>s. (Inr (200 :: nat), s)) (0 :: nat) = (Inr 200, 0)
   \<and> dispatch CrewViewSet (Some \<lparr>user_id = 2, is_staff = False\<rparr>) (method_of A_destroy)
     (\<lambda>s. (Inr (204 :: nat), Suc s)) (0 :: nat) = (Inl PermissionDenied, 0)"
  using admin_only_resources
    [of CountryViewSet "Some \<lparr>user_id = 2, is_staff = False\<rparr>" A_list
        "\<lambda>s. (Inr (200 :: nat), s)" "0 :: nat"]
    admin_only_resources
    [of CountryViewSet "Some \<lparr>user_id = 1, is_staff = True\<rparr>" A_list
        "\<lambda>s. (Inr (200 :: nat), s)" "0 :: nat"]
    admin_only_resources
    [of CountryViewSet "Some \<lparr>user_id = 2, is_staff = False\<rparr>" A_destroy
        "\<lambda>s. (Inr (204 :: nat), Suc s)" "0 :: nat"]
  by simp

text \<open>
  Claim C5 as stated ("every operation [on Crew] succeeds only for a staff/admin
  principal") fails for reads: user 2, authenticated and not staff, lists and
  retrieves crews.
\<close>

theorem crew_read_counterexample:
  "dispatch CrewViewSet (Some \<lparr>user_id = 2, is_staff = False\<rparr>) (method_of A_list)
     (\<lambda>s. (Inr (200 :: nat), s)) (0 :: nat) = (Inr 200, 0)
   \<and> dispatch CrewViewSet (Some \<lparr>user_id = 2, is_staff = False\<rparr>) (method_of A_retrieve)
     (\<lambda>s. (Inr (200 :: nat), s)) (0 :: nat) = (Inr 200, 0)"
  by (simp add: dispatch_def check_permissions_def IsAdminOrIfAuthenticatedReadOnly_def
      SAFE_METHODS_def)

end
